theory Spec2Isabelle
  imports Main
begin

section \<open>Hospital staff directory: the store and its four resources\<close>

text \<open>
  The backend keeps four tables (hospitals, roles, users, doctors) in an SQLite file and
  exposes Create / List / Get / Update / Delete for each of them. The model below follows
  \<^verbatim>\<open>backend/database.py\<close> for the tables and \<^verbatim>\<open>backend/main.py\<close> for the
  handlers. A handler takes the store (the \<^verbatim>\<open>db\<close> session) as its last argument and
  returns the store after the request together with either the exception it raised or the
  status code of its route and the value it returned.

  Record fields carry a prefix because field names are global: \<open>h_\<close>, \<open>r_\<close>, \<open>u_\<close>, \<open>d_\<close>
  for the columns of a row, \<open>hc_\<close>, \<open>rc_\<close>, \<open>uc_\<close>, \<open>dc_\<close> for the fields of a request
  model and \<open>hr_\<close>, \<open>rr_\<close>, \<open>ur_\<close>, \<open>dr_\<close> for the fields of a response model.
\<close>

subsection \<open>Tables (database.py)\<close>

type_synonym datetime = nat

record Hospital =
  h_id :: int
  h_name :: string
  h_address :: string
  h_created_at :: datetime

record Role =
  r_id :: int
  r_role_name :: string
  r_permissions :: string
  r_hospital_id :: "int option"

record User =
  u_id :: int
  u_username :: string
  u_full_name :: string
  u_email :: string
  u_hashed_password :: string
  u_role_id :: "int option"

text \<open>
  \<^verbatim>\<open>Doctor.user_id\<close> and \<^verbatim>\<open>Doctor.hospital_id\<close> are declared without
  \<^verbatim>\<open>nullable=False\<close>, so both columns can hold NULL.
\<close>

record Doctor =
  d_id :: int
  d_user_id :: "int option"
  d_hospital_id :: "int option"
  d_specialty :: string
  d_short_bio :: "string option"

record store =
  hospitals :: "Hospital list"
  roles :: "Role list"
  users :: "User list"
  doctors :: "Doctor list"

definition empty_store :: store where
  "empty_store = \<lparr>hospitals = [], roles = [], users = [], doctors = []\<rparr>"

subsection \<open>Request and response models (main.py, lines 41 to 98)\<close>

record HospitalCreate =
  hc_name :: string
  hc_address :: string

record HospitalResponse =
  hr_name :: string
  hr_address :: string
  hr_id :: int
  hr_created_at :: datetime

record RoleCreate =
  rc_role_name :: string
  rc_permissions :: string
  rc_hospital_id :: "int option"

record RoleResponse =
  rr_role_name :: string
  rr_permissions :: string
  rr_hospital_id :: "int option"
  rr_id :: int
  rr_hospital_name :: "string option"

text \<open>
  \<^verbatim>\<open>update_user\<close> reads \<^verbatim>\<open>user.dict(exclude_unset=True)\<close>, so the model of
  \<^verbatim>\<open>UserCreate\<close> remembers whether its only field with a default, \<^verbatim>\<open>role_id\<close>,
  was supplied. The other four fields are required and therefore always set.
\<close>

datatype 'a supplied = Unset | Given 'a

record UserCreate =
  uc_username :: string
  uc_full_name :: string
  uc_email :: string
  uc_role_id :: "int option supplied"
  uc_password :: string

text \<open>The attribute \<^verbatim>\<open>user.role_id\<close>: the default \<^verbatim>\<open>None\<close> when the field was not supplied.\<close>

fun role_id_attr :: "UserCreate \<Rightarrow> int option" where
  "role_id_attr user = (case uc_role_id user of Unset \<Rightarrow> None | Given v \<Rightarrow> v)"

record UserResponse =
  ur_username :: string
  ur_full_name :: string
  ur_email :: string
  ur_role_id :: "int option"
  ur_id :: int
  ur_role_name :: "string option"

record DoctorCreate =
  dc_user_id :: int
  dc_hospital_id :: int
  dc_specialty :: string
  dc_short_bio :: "string option"

record DoctorResponse =
  dr_user_id :: int
  dr_hospital_id :: int
  dr_specialty :: string
  dr_short_bio :: "string option"
  dr_id :: int
  dr_username :: "string option"
  dr_full_name :: "string option"
  dr_hospital_name :: "string option"

subsection \<open>Exceptions and results\<close>

text \<open>
  \<open>HTTPException\<close> carries the status code and the detail of the \<^verbatim>\<open>raise\<close>.
  \<open>RequestValidationError\<close> is the rejection of a body that does not fit the request model
  (status 422), \<open>IntegrityError\<close> the store refusing a commit that breaks a UNIQUE index,
  \<open>AttributeError\<close> an attribute read on \<^verbatim>\<open>None\<close>, \<open>OverflowError\<close> the database
  driver refusing an integer parameter that does not fit SQLite's INTEGER; the last three
  are not caught by any handler and reach the client as status 500.
\<close>

datatype error =
    HTTPException int string
  | RequestValidationError
  | IntegrityError
  | AttributeError
  | OverflowError

fun status_code :: "error \<Rightarrow> int" where
  "status_code (HTTPException code detail) = code"
| "status_code RequestValidationError = 422"
| "status_code IntegrityError = 500"
| "status_code AttributeError = 500"
| "status_code OverflowError = 500"

type_synonym 'a result = "error + int \<times> 'a"

type_synonym message = "(string \<times> string) list"

text \<open>
  What a route sends for the value its handler returns: a route declared with status 204
  (No Content) sends no body, whatever the handler returned.
\<close>

definition reply :: "int \<Rightarrow> 'a \<Rightarrow> int \<times> 'a option" where
  "reply status content = (status, if status = 204 then None else Some content)"

subsection \<open>Store primitives\<close>

text \<open>
  \<^verbatim>\<open>id = Column(Integer, primary_key=True)\<close> on SQLite is the rowid: an insert without an
  explicit id takes 1 on an empty table and the largest id in use plus one otherwise.
\<close>

definition next_id :: "int list \<Rightarrow> int" where
  "next_id ids = (if ids = [] then 1 else Max (set ids) + 1)"

text \<open>
  Every integer of a query is bound as a parameter, and SQLite's INTEGER is a signed
  64-bit number: binding a Python integer outside that range raises \<open>OverflowError\<close>.
  The keys stored in a table all lie in the range, so a key outside it names no row.
  \<open>no_row k detail\<close> is what a handler raises when its lookup of the key \<open>k\<close> gave
  no row: the query raised \<open>OverflowError\<close> when \<open>k\<close> is outside the range, and the
  handler raises its \<^verbatim>\<open>HTTPException(status_code=404, detail=...)\<close> otherwise.
  \<open>no_row_ref\<close> is the same for an optional foreign key, which is looked up only when
  it is truthy, hence not \<^verbatim>\<open>None\<close>.
\<close>

definition int64 :: "int \<Rightarrow> bool" where
  "int64 k = (- 9223372036854775808 \<le> k \<and> k \<le> 9223372036854775807)"

definition no_row :: "int \<Rightarrow> string \<Rightarrow> error" where
  "no_row k detail = (if int64 k then HTTPException 404 detail else OverflowError)"

fun no_row_ref :: "int option \<Rightarrow> string \<Rightarrow> error" where
  "no_row_ref (Some k) detail = no_row k detail"
| "no_row_ref None detail = HTTPException 404 detail"

text \<open>
  \<^verbatim>\<open>.offset(skip).limit(limit)\<close> hands both integers to SQLite unchecked, as bound
  parameters. SQLite reads a negative OFFSET as zero and a negative LIMIT as no bound.
\<close>

definition sql_offset :: "int \<Rightarrow> 'a list \<Rightarrow> 'a list" where
  "sql_offset skip rows = drop (nat skip) rows"

definition sql_limit :: "int \<Rightarrow> 'a list \<Rightarrow> 'a list" where
  "sql_limit limit rows = (if limit < 0 then rows else take (nat limit) rows)"

subsection \<open>Hospital endpoints\<close>

definition hospital_response :: "Hospital \<Rightarrow> HospitalResponse" where
  "hospital_response h =
     \<lparr>hr_name = h_name h, hr_address = h_address h, hr_id = h_id h,
      hr_created_at = h_created_at h\<rparr>"

text \<open>The UNIQUE index on \<^verbatim>\<open>hospitals.name\<close>, checked for the row written by a commit.\<close>

definition hospital_name_free :: "int \<Rightarrow> string \<Rightarrow> Hospital list \<Rightarrow> bool" where
  "hospital_name_free row_id name rows =
     list_all (\<lambda>h. h_id h = row_id \<or> h_name h \<noteq> name) rows"

text \<open>\<open>now\<close> is the clock read by the column default \<^verbatim>\<open>datetime.utcnow\<close> at the insert.\<close>

definition create_hospital ::
  "datetime \<Rightarrow> HospitalCreate \<Rightarrow> store \<Rightarrow> store \<times> HospitalResponse result" where
  "create_hospital now hospital db =
     (case find (\<lambda>h. h_name h = hc_name hospital) (hospitals db) of
        Some db_hospital \<Rightarrow>
          (db, Inl (HTTPException 400 ''Hospital with this name already exists''))
      | None \<Rightarrow>
          let db_hospital =
                \<lparr>h_id = next_id (map h_id (hospitals db)), h_name = hc_name hospital,
                 h_address = hc_address hospital, h_created_at = now\<rparr>
          in if hospital_name_free (h_id db_hospital) (h_name db_hospital) (hospitals db)
             then (db\<lparr>hospitals := hospitals db @ [db_hospital]\<rparr>,
                   Inr (201, hospital_response db_hospital))
             else (db, Inl IntegrityError))"

definition read_hospitals :: "int \<Rightarrow> int \<Rightarrow> store \<Rightarrow> store \<times> HospitalResponse list result" where
  "read_hospitals skip limit db =
     (if int64 skip \<and> int64 limit
      then (db, Inr (200, map hospital_response (sql_limit limit (sql_offset skip (hospitals db)))))
      else (db, Inl OverflowError))"

definition read_hospital :: "int \<Rightarrow> store \<Rightarrow> store \<times> HospitalResponse result" where
  "read_hospital hospital_id db =
     (case find (\<lambda>h. h_id h = hospital_id) (hospitals db) of
        None \<Rightarrow> (db, Inl (no_row hospital_id ''Hospital not found''))
      | Some hospital \<Rightarrow> (db, Inr (200, hospital_response hospital)))"

definition update_hospital ::
  "int \<Rightarrow> HospitalCreate \<Rightarrow> store \<Rightarrow> store \<times> HospitalResponse result" where
  "update_hospital hospital_id hospital db =
     (case find (\<lambda>h. h_id h = hospital_id) (hospitals db) of
        None \<Rightarrow> (db, Inl (no_row hospital_id ''Hospital not found''))
      | Some db_hospital \<Rightarrow>
          if hc_name hospital \<noteq> h_name db_hospital
             \<and> find (\<lambda>h. h_name h = hc_name hospital) (hospitals db) \<noteq> None
          then (db, Inl (HTTPException 400 ''Hospital with this name already exists''))
          else
            let db_hospital' =
                  db_hospital\<lparr>h_name := hc_name hospital, h_address := hc_address hospital\<rparr>
            in if hospital_name_free hospital_id (h_name db_hospital') (hospitals db)
               then (db\<lparr>hospitals :=
                          map (\<lambda>h. if h_id h = hospital_id
                                   then h\<lparr>h_name := hc_name hospital,
                                          h_address := hc_address hospital\<rparr>
                                   else h) (hospitals db)\<rparr>,
                     Inr (200, hospital_response db_hospital'))
               else (db, Inl IntegrityError))"

text \<open>
  \<^verbatim>\<open>db.delete\<close> of a parent row: \<^verbatim>\<open>Hospital.roles\<close> and \<^verbatim>\<open>Hospital.doctors\<close> are
  \<^verbatim>\<open>relationship(...)\<close> with the default cascade (no \<^verbatim>\<open>delete\<close>) and without
  \<^verbatim>\<open>passive_deletes\<close>. For such a relationship the session loads the children of the
  deleted parent at the flush and sets their foreign key column to NULL before it deletes
  the parent; the children themselves stay.
\<close>

definition delete_hospital :: "int \<Rightarrow> store \<Rightarrow> store \<times> message option result" where
  "delete_hospital hospital_id db =
     (case find (\<lambda>h. h_id h = hospital_id) (hospitals db) of
        None \<Rightarrow> (db, Inl (no_row hospital_id ''Hospital not found''))
      | Some db_hospital \<Rightarrow>
          (db\<lparr>hospitals := filter (\<lambda>h. h_id h \<noteq> hospital_id) (hospitals db),
              roles := map (\<lambda>r. if r_hospital_id r = Some hospital_id
                                then r\<lparr>r_hospital_id := None\<rparr> else r) (roles db),
              doctors := map (\<lambda>d. if d_hospital_id d = Some hospital_id
                                  then d\<lparr>d_hospital_id := None\<rparr> else d) (doctors db)\<rparr>,
           Inr (reply 204 [(''message'', ''Hospital deleted successfully'')])))"

subsection \<open>Role endpoints\<close>

text \<open>Python truthiness of an optional integer: \<^verbatim>\<open>None\<close> and \<^verbatim>\<open>0\<close> are false.\<close>

fun truthy :: "int option \<Rightarrow> bool" where
  "truthy None = False"
| "truthy (Some k) = (k \<noteq> 0)"

text \<open>
  The many-to-one relationships \<^verbatim>\<open>Role.hospital\<close>, \<^verbatim>\<open>Doctor.hospital\<close>,
  \<^verbatim>\<open>User.role\<close> and \<^verbatim>\<open>Doctor.user\<close>: the row the foreign key names, \<^verbatim>\<open>None\<close> when
  the key is NULL or names no row.
\<close>

definition hospital_of :: "int option \<Rightarrow> store \<Rightarrow> Hospital option" where
  "hospital_of fk db =
     (case fk of None \<Rightarrow> None | Some k \<Rightarrow> find (\<lambda>h. h_id h = k) (hospitals db))"

definition role_of :: "int option \<Rightarrow> store \<Rightarrow> Role option" where
  "role_of fk db =
     (case fk of None \<Rightarrow> None | Some k \<Rightarrow> find (\<lambda>r. r_id r = k) (roles db))"

definition user_of :: "int option \<Rightarrow> store \<Rightarrow> User option" where
  "user_of fk db =
     (case fk of None \<Rightarrow> None | Some k \<Rightarrow> find (\<lambda>u. u_id u = k) (users db))"

definition role_response :: "store \<Rightarrow> Role \<Rightarrow> RoleResponse" where
  "role_response db r =
     \<lparr>rr_role_name = r_role_name r, rr_permissions = r_permissions r,
      rr_hospital_id = r_hospital_id r, rr_id = r_id r,
      rr_hospital_name = map_option h_name (hospital_of (r_hospital_id r) db)\<rparr>"

definition create_role :: "RoleCreate \<Rightarrow> store \<Rightarrow> store \<times> RoleResponse result" where
  "create_role role db =
     (if truthy (rc_hospital_id role) \<and> hospital_of (rc_hospital_id role) db = None
      then (db, Inl (no_row_ref (rc_hospital_id role) ''Hospital not found''))
      else
        let db_role =
              \<lparr>r_id = next_id (map r_id (roles db)), r_role_name = rc_role_name role,
               r_permissions = rc_permissions role, r_hospital_id = rc_hospital_id role\<rparr>;
            db' = db\<lparr>roles := roles db @ [db_role]\<rparr>
        in (db', Inr (201, role_response db' db_role)))"

definition read_roles :: "int \<Rightarrow> int \<Rightarrow> store \<Rightarrow> store \<times> RoleResponse list result" where
  "read_roles skip limit db =
     (if int64 skip \<and> int64 limit
      then (db, Inr (200, map (role_response db) (sql_limit limit (sql_offset skip (roles db)))))
      else (db, Inl OverflowError))"

definition read_role :: "int \<Rightarrow> store \<Rightarrow> store \<times> RoleResponse result" where
  "read_role role_id db =
     (case find (\<lambda>r. r_id r = role_id) (roles db) of
        None \<Rightarrow> (db, Inl (no_row role_id ''Role not found''))
      | Some role \<Rightarrow> (db, Inr (200, role_response db role)))"

definition update_role :: "int \<Rightarrow> RoleCreate \<Rightarrow> store \<Rightarrow> store \<times> RoleResponse result" where
  "update_role role_id role db =
     (case find (\<lambda>r. r_id r = role_id) (roles db) of
        None \<Rightarrow> (db, Inl (no_row role_id ''Role not found''))
      | Some db_role \<Rightarrow>
          if truthy (rc_hospital_id role) \<and> hospital_of (rc_hospital_id role) db = None
          then (db, Inl (no_row_ref (rc_hospital_id role) ''Hospital not found''))
          else
            let db_role' =
                  db_role\<lparr>r_role_name := rc_role_name role,
                          r_permissions := rc_permissions role,
                          r_hospital_id := rc_hospital_id role\<rparr>;
                db' = db\<lparr>roles :=
                           map (\<lambda>r. if r_id r = role_id
                                    then r\<lparr>r_role_name := rc_role_name role,
                                           r_permissions := rc_permissions role,
                                           r_hospital_id := rc_hospital_id role\<rparr>
                                    else r) (roles db)\<rparr>
            in (db', Inr (200, role_response db' db_role')))"

text \<open>\<^verbatim>\<open>Role.users\<close> is a one-to-many relationship: the users of a deleted role lose it.\<close>

definition delete_role :: "int \<Rightarrow> store \<Rightarrow> store \<times> message option result" where
  "delete_role role_id db =
     (case find (\<lambda>r. r_id r = role_id) (roles db) of
        None \<Rightarrow> (db, Inl (no_row role_id ''Role not found''))
      | Some db_role \<Rightarrow>
          (db\<lparr>roles := filter (\<lambda>r. r_id r \<noteq> role_id) (roles db),
              users := map (\<lambda>u. if u_role_id u = Some role_id
                                then u\<lparr>u_role_id := None\<rparr> else u) (users db)\<rparr>,
           Inr (reply 204 [(''message'', ''Role deleted successfully'')])))"

subsection \<open>User endpoints\<close>

definition user_response :: "store \<Rightarrow> User \<Rightarrow> UserResponse" where
  "user_response db u =
     \<lparr>ur_username = u_username u, ur_full_name = u_full_name u, ur_email = u_email u,
      ur_role_id = u_role_id u, ur_id = u_id u,
      ur_role_name = map_option r_role_name (role_of (u_role_id u) db)\<rparr>"

text \<open>The UNIQUE indexes on \<^verbatim>\<open>users.username\<close> and \<^verbatim>\<open>users.email\<close>.\<close>

definition username_free :: "int \<Rightarrow> string \<Rightarrow> User list \<Rightarrow> bool" where
  "username_free row_id username rows =
     list_all (\<lambda>u. u_id u = row_id \<or> u_username u \<noteq> username) rows"

definition email_free :: "int \<Rightarrow> string \<Rightarrow> User list \<Rightarrow> bool" where
  "email_free row_id email rows =
     list_all (\<lambda>u. u_id u = row_id \<or> u_email u \<noteq> email) rows"

text \<open>
  \<open>get_password_hash\<close> stands for \<^verbatim>\<open>pwd_context.hash\<close> (bcrypt, which draws a salt): it
  is a parameter of the two handlers that call it.
\<close>

definition create_user ::
  "(string \<Rightarrow> string) \<Rightarrow> UserCreate \<Rightarrow> store \<Rightarrow> store \<times> UserResponse result" where
  "create_user get_password_hash user db =
     (if find (\<lambda>u. u_username u = uc_username user) (users db) \<noteq> None
      then (db, Inl (HTTPException 400 ''Username already registered''))
      else if find (\<lambda>u. u_email u = uc_email user) (users db) \<noteq> None
      then (db, Inl (HTTPException 400 ''Email already registered''))
      else if truthy (role_id_attr user) \<and> role_of (role_id_attr user) db = None
      then (db, Inl (no_row_ref (role_id_attr user) ''Role not found''))
      else
        let hashed_password = get_password_hash (uc_password user);
            db_user =
              \<lparr>u_id = next_id (map u_id (users db)), u_username = uc_username user,
               u_full_name = uc_full_name user, u_email = uc_email user,
               u_hashed_password = hashed_password, u_role_id = role_id_attr user\<rparr>;
            db' = db\<lparr>users := users db @ [db_user]\<rparr>
        in if username_free (u_id db_user) (u_username db_user) (users db)
              \<and> email_free (u_id db_user) (u_email db_user) (users db)
           then (db', Inr (201, user_response db' db_user))
           else (db, Inl IntegrityError))"

definition read_users :: "int \<Rightarrow> int \<Rightarrow> store \<Rightarrow> store \<times> UserResponse list result" where
  "read_users skip limit db =
     (if int64 skip \<and> int64 limit
      then (db, Inr (200, map (user_response db) (sql_limit limit (sql_offset skip (users db)))))
      else (db, Inl OverflowError))"

definition read_user :: "int \<Rightarrow> store \<Rightarrow> store \<times> UserResponse result" where
  "read_user user_id db =
     (case find (\<lambda>u. u_id u = user_id) (users db) of
        None \<Rightarrow> (db, Inl (no_row user_id ''User not found''))
      | Some user \<Rightarrow> (db, Inr (200, user_response db user)))"

text \<open>
  \<^verbatim>\<open>user.dict(exclude_unset=True)\<close>: the fields that were supplied, in declaration order
  (those of \<^verbatim>\<open>UserBase\<close>, then \<^verbatim>\<open>password\<close>), and the loop of \<^verbatim>\<open>update_user\<close> over
  its items.
\<close>

datatype pyval = PyStr string | PyInt int | PyNone

fun pyval_of_int_option :: "int option \<Rightarrow> pyval" where
  "pyval_of_int_option None = PyNone"
| "pyval_of_int_option (Some k) = PyInt k"

fun truthy_val :: "pyval \<Rightarrow> bool" where
  "truthy_val (PyStr s) = (s \<noteq> [])"
| "truthy_val (PyInt k) = (k \<noteq> 0)"
| "truthy_val PyNone = False"

definition dict_exclude_unset :: "UserCreate \<Rightarrow> (string \<times> pyval) list" where
  "dict_exclude_unset user =
     [(''username'', PyStr (uc_username user)),
      (''full_name'', PyStr (uc_full_name user)),
      (''email'', PyStr (uc_email user))]
     @ (case uc_role_id user of
          Unset \<Rightarrow> []
        | Given v \<Rightarrow> [(''role_id'', pyval_of_int_option v)])
     @ [(''password'', PyStr (uc_password user))]"

fun setattr_user :: "string \<Rightarrow> pyval \<Rightarrow> User \<Rightarrow> User" where
  "setattr_user key (PyStr s) u =
     (if key = ''username'' then u\<lparr>u_username := s\<rparr>
      else if key = ''full_name'' then u\<lparr>u_full_name := s\<rparr>
      else if key = ''email'' then u\<lparr>u_email := s\<rparr>
      else if key = ''hashed_password'' then u\<lparr>u_hashed_password := s\<rparr>
      else u)"
| "setattr_user key (PyInt k) u = (if key = ''role_id'' then u\<lparr>u_role_id := Some k\<rparr> else u)"
| "setattr_user key PyNone u = (if key = ''role_id'' then u\<lparr>u_role_id := None\<rparr> else u)"

fun apply_item :: "(string \<Rightarrow> string) \<Rightarrow> string \<times> pyval \<Rightarrow> User \<Rightarrow> User" where
  "apply_item get_password_hash (key, value) u =
     (if key = ''password'' \<and> truthy_val value
      then (case value of
              PyStr s \<Rightarrow> setattr_user ''hashed_password'' (PyStr (get_password_hash s)) u
            | _ \<Rightarrow> u)
      else if key \<noteq> ''password'' then setattr_user key value u
      else u)"

definition update_user ::
  "(string \<Rightarrow> string) \<Rightarrow> int \<Rightarrow> UserCreate \<Rightarrow> store \<Rightarrow> store \<times> UserResponse result" where
  "update_user get_password_hash user_id user db =
     (case find (\<lambda>u. u_id u = user_id) (users db) of
        None \<Rightarrow> (db, Inl (no_row user_id ''User not found''))
      | Some db_user \<Rightarrow>
          if uc_username user \<noteq> u_username db_user
             \<and> find (\<lambda>u. u_username u = uc_username user) (users db) \<noteq> None
          then (db, Inl (HTTPException 400 ''Username already registered''))
          else if uc_email user \<noteq> u_email db_user
             \<and> find (\<lambda>u. u_email u = uc_email user) (users db) \<noteq> None
          then (db, Inl (HTTPException 400 ''Email already registered''))
          else if truthy (role_id_attr user) \<and> role_of (role_id_attr user) db = None
          then (db, Inl (no_row_ref (role_id_attr user) ''Role not found''))
          else
            let db_user' = fold (apply_item get_password_hash) (dict_exclude_unset user) db_user;
                db' = db\<lparr>users := map (\<lambda>u. if u_id u = user_id then db_user' else u)
                                      (users db)\<rparr>
            in if username_free user_id (u_username db_user') (users db)
                  \<and> email_free user_id (u_email db_user') (users db)
               then (db', Inr (200, user_response db' db_user'))
               else (db, Inl IntegrityError))"

text \<open>
  \<^verbatim>\<open>User.doctor_profile\<close> is a one-to-one relationship held on the doctor's side: the
  doctor of a deleted user loses its \<^verbatim>\<open>user_id\<close>.
\<close>

definition delete_user :: "int \<Rightarrow> store \<Rightarrow> store \<times> message option result" where
  "delete_user user_id db =
     (case find (\<lambda>u. u_id u = user_id) (users db) of
        None \<Rightarrow> (db, Inl (no_row user_id ''User not found''))
      | Some db_user \<Rightarrow>
          (db\<lparr>users := filter (\<lambda>u. u_id u \<noteq> user_id) (users db),
              doctors := map (\<lambda>d. if d_user_id d = Some user_id
                                  then d\<lparr>d_user_id := None\<rparr> else d) (doctors db)\<rparr>,
           Inr (reply 204 [(''message'', ''User deleted successfully'')])))"

text \<open>
  The body of \<^verbatim>\<open>PUT /users/{user_id}\<close> before validation: each field is present with a
  value or absent. The parameter \<^verbatim>\<open>user: UserCreate\<close> makes the framework reject a body
  that lacks a required field before the handler runs.
\<close>

record UserBody =
  ub_username :: "string option"
  ub_full_name :: "string option"
  ub_email :: "string option"
  ub_role_id :: "int option supplied"
  ub_password :: "string option"

definition validate_UserCreate :: "UserBody \<Rightarrow> error + UserCreate" where
  "validate_UserCreate body =
     (case (ub_username body, ub_full_name body, ub_email body, ub_password body) of
        (Some username, Some full_name, Some email, Some password) \<Rightarrow>
          Inr \<lparr>uc_username = username, uc_full_name = full_name, uc_email = email,
               uc_role_id = ub_role_id body, uc_password = password\<rparr>
      | _ \<Rightarrow> Inl RequestValidationError)"

definition put_user ::
  "(string \<Rightarrow> string) \<Rightarrow> int \<Rightarrow> UserBody \<Rightarrow> store \<Rightarrow> store \<times> UserResponse result" where
  "put_user get_password_hash user_id body db =
     (case validate_UserCreate body of
        Inl e \<Rightarrow> (db, Inl e)
      | Inr user \<Rightarrow> update_user get_password_hash user_id user db)"

subsection \<open>Doctor endpoints\<close>

text \<open>The UNIQUE index on \<^verbatim>\<open>doctors.user_id\<close>; NULL never collides.\<close>

definition doctor_user_free :: "int \<Rightarrow> int \<Rightarrow> Doctor list \<Rightarrow> bool" where
  "doctor_user_free row_id user_id rows =
     list_all (\<lambda>d. d_id d = row_id \<or> d_user_id d \<noteq> Some user_id) rows"

text \<open>
  The three assignments \<^verbatim>\<open>doctor.username = doctor.user.username\<close>,
  \<^verbatim>\<open>doctor.full_name = doctor.user.full_name\<close> and
  \<^verbatim>\<open>doctor.hospital_name = doctor.hospital.name\<close> are not guarded: a doctor whose
  user or hospital relationship is \<^verbatim>\<open>None\<close> raises \<open>AttributeError\<close>.
\<close>

definition doctor_response :: "store \<Rightarrow> Doctor \<Rightarrow> error + DoctorResponse" where
  "doctor_response db d =
     (case user_of (d_user_id d) db of
        None \<Rightarrow> Inl AttributeError
      | Some user \<Rightarrow>
          (case hospital_of (d_hospital_id d) db of
             None \<Rightarrow> Inl AttributeError
           | Some hospital \<Rightarrow>
               Inr \<lparr>dr_user_id = u_id user, dr_hospital_id = h_id hospital,
                    dr_specialty = d_specialty d, dr_short_bio = d_short_bio d,
                    dr_id = d_id d, dr_username = Some (u_username user),
                    dr_full_name = Some (u_full_name user),
                    dr_hospital_name = Some (h_name hospital)\<rparr>))"

fun doctor_responses :: "store \<Rightarrow> Doctor list \<Rightarrow> error + DoctorResponse list" where
  "doctor_responses db [] = Inr []"
| "doctor_responses db (d # ds) =
     (case doctor_response db d of
        Inl e \<Rightarrow> Inl e
      | Inr r \<Rightarrow>
          (case doctor_responses db ds of
             Inl e \<Rightarrow> Inl e
           | Inr rs \<Rightarrow> Inr (r # rs)))"

definition create_doctor :: "DoctorCreate \<Rightarrow> store \<Rightarrow> store \<times> DoctorResponse result" where
  "create_doctor doctor db =
     (if find (\<lambda>u. u_id u = dc_user_id doctor) (users db) = None
      then (db, Inl (no_row (dc_user_id doctor) ''User not found''))
      else if find (\<lambda>h. h_id h = dc_hospital_id doctor) (hospitals db) = None
      then (db, Inl (no_row (dc_hospital_id doctor) ''Hospital not found''))
      else if find (\<lambda>d. d_user_id d = Some (dc_user_id doctor)) (doctors db) \<noteq> None
      then (db, Inl (HTTPException 400 ''User already has a doctor profile''))
      else
        let db_doctor =
              \<lparr>d_id = next_id (map d_id (doctors db)), d_user_id = Some (dc_user_id doctor),
               d_hospital_id = Some (dc_hospital_id doctor),
               d_specialty = dc_specialty doctor, d_short_bio = dc_short_bio doctor\<rparr>;
            db' = db\<lparr>doctors := doctors db @ [db_doctor]\<rparr>
        in if doctor_user_free (d_id db_doctor) (dc_user_id doctor) (doctors db)
           then (case doctor_response db' db_doctor of
                   Inl e \<Rightarrow> (db', Inl e)
                 | Inr r \<Rightarrow> (db', Inr (201, r)))
           else (db, Inl IntegrityError))"

definition read_doctors :: "int \<Rightarrow> int \<Rightarrow> store \<Rightarrow> store \<times> DoctorResponse list result" where
  "read_doctors skip limit db =
     (if int64 skip \<and> int64 limit
      then (case doctor_responses db (sql_limit limit (sql_offset skip (doctors db))) of
              Inl e \<Rightarrow> (db, Inl e)
            | Inr rs \<Rightarrow> (db, Inr (200, rs)))
      else (db, Inl OverflowError))"

definition read_doctor :: "int \<Rightarrow> store \<Rightarrow> store \<times> DoctorResponse result" where
  "read_doctor doctor_id db =
     (case find (\<lambda>d. d_id d = doctor_id) (doctors db) of
        None \<Rightarrow> (db, Inl (no_row doctor_id ''Doctor not found''))
      | Some doctor \<Rightarrow>
          (case doctor_response db doctor of
             Inl e \<Rightarrow> (db, Inl e)
           | Inr r \<Rightarrow> (db, Inr (200, r))))"

text \<open>
  \<^verbatim>\<open>update_doctor\<close> has no check of its own that the new \<^verbatim>\<open>user_id\<close> is free; the
  UNIQUE index on the column refuses the commit.
\<close>

definition update_doctor ::
  "int \<Rightarrow> DoctorCreate \<Rightarrow> store \<Rightarrow> store \<times> DoctorResponse result" where
  "update_doctor doctor_id doctor db =
     (case find (\<lambda>d. d_id d = doctor_id) (doctors db) of
        None \<Rightarrow> (db, Inl (no_row doctor_id ''Doctor not found''))
      | Some db_doctor \<Rightarrow>
          if find (\<lambda>u. u_id u = dc_user_id doctor) (users db) = None
          then (db, Inl (no_row (dc_user_id doctor) ''User not found''))
          else if find (\<lambda>h. h_id h = dc_hospital_id doctor) (hospitals db) = None
          then (db, Inl (no_row (dc_hospital_id doctor) ''Hospital not found''))
          else
            let db_doctor' =
                  db_doctor\<lparr>d_user_id := Some (dc_user_id doctor),
                            d_hospital_id := Some (dc_hospital_id doctor),
                            d_specialty := dc_specialty doctor,
                            d_short_bio := dc_short_bio doctor\<rparr>;
                db' = db\<lparr>doctors := map (\<lambda>d. if d_id d = doctor_id
                                             then d\<lparr>d_user_id := Some (dc_user_id doctor),
                                                    d_hospital_id := Some (dc_hospital_id doctor),
                                                    d_specialty := dc_specialty doctor,
                                                    d_short_bio := dc_short_bio doctor\<rparr>
                                             else d) (doctors db)\<rparr>
            in if doctor_user_free doctor_id (dc_user_id doctor) (doctors db)
               then (case doctor_response db' db_doctor' of
                       Inl e \<Rightarrow> (db', Inl e)
                     | Inr r \<Rightarrow> (db', Inr (200, r)))
               else (db, Inl IntegrityError))"

definition delete_doctor :: "int \<Rightarrow> store \<Rightarrow> store \<times> message option result" where
  "delete_doctor doctor_id db =
     (case find (\<lambda>d. d_id d = doctor_id) (doctors db) of
        None \<Rightarrow> (db, Inl (no_row doctor_id ''Doctor not found''))
      | Some db_doctor \<Rightarrow>
          (db\<lparr>doctors := filter (\<lambda>d. d_id d \<noteq> doctor_id) (doctors db)\<rparr>,
           Inr (reply 204 [(''message'', ''Doctor deleted successfully'')])))"

subsection \<open>Requests and reachable stores\<close>

text \<open>
  One constructor per route. \<open>after\<close> is the store a request leaves behind; a store is
  reachable when some sequence of requests produces it from the empty database, whatever
  the clock and the hashing function are at each request.
\<close>

datatype request =
    CreateHospital HospitalCreate
  | ReadHospitals int int
  | ReadHospital int
  | UpdateHospital int HospitalCreate
  | DeleteHospital int
  | CreateRole RoleCreate
  | ReadRoles int int
  | ReadRole int
  | UpdateRole int RoleCreate
  | DeleteRole int
  | CreateUser UserCreate
  | ReadUsers int int
  | ReadUser int
  | UpdateUser int UserCreate
  | DeleteUser int
  | CreateDoctor DoctorCreate
  | ReadDoctors int int
  | ReadDoctor int
  | UpdateDoctor int DoctorCreate
  | DeleteDoctor int

fun after :: "(string \<Rightarrow> string) \<Rightarrow> datetime \<Rightarrow> request \<Rightarrow> store \<Rightarrow> store" where
  "after hash now (CreateHospital hospital) db = fst (create_hospital now hospital db)"
| "after hash now (ReadHospitals skip limit) db = fst (read_hospitals skip limit db)"
| "after hash now (ReadHospital hospital_id) db = fst (read_hospital hospital_id db)"
| "after hash now (UpdateHospital hospital_id hospital) db =
     fst (update_hospital hospital_id hospital db)"
| "after hash now (DeleteHospital hospital_id) db = fst (delete_hospital hospital_id db)"
| "after hash now (CreateRole role) db = fst (create_role role db)"
| "after hash now (ReadRoles skip limit) db = fst (read_roles skip limit db)"
| "after hash now (ReadRole role_id) db = fst (read_role role_id db)"
| "after hash now (UpdateRole role_id role) db = fst (update_role role_id role db)"
| "after hash now (DeleteRole role_id) db = fst (delete_role role_id db)"
| "after hash now (CreateUser user) db = fst (create_user hash user db)"
| "after hash now (ReadUsers skip limit) db = fst (read_users skip limit db)"
| "after hash now (ReadUser user_id) db = fst (read_user user_id db)"
| "after hash now (UpdateUser user_id user) db = fst (update_user hash user_id user db)"
| "after hash now (DeleteUser user_id) db = fst (delete_user user_id db)"
| "after hash now (CreateDoctor doctor) db = fst (create_doctor doctor db)"
| "after hash now (ReadDoctors skip limit) db = fst (read_doctors skip limit db)"
| "after hash now (ReadDoctor doctor_id) db = fst (read_doctor doctor_id db)"
| "after hash now (UpdateDoctor doctor_id doctor) db =
     fst (update_doctor doctor_id doctor db)"
| "after hash now (DeleteDoctor doctor_id) db = fst (delete_doctor doctor_id db)"

inductive reachable :: "store \<Rightarrow> bool" where
  init: "reachable empty_store"
| step: "reachable db \<Longrightarrow> reachable (after hash now req db)"

text \<open>
  The constraints the schema declares: in every table the primary key is positive and the
  rows are stored in ascending key order; \<^verbatim>\<open>hospitals.name\<close>, \<^verbatim>\<open>users.username\<close>,
  \<^verbatim>\<open>users.email\<close> and the non-NULL values of \<^verbatim>\<open>doctors.user_id\<close> are unique.
\<close>

definition keys_ok :: "int list \<Rightarrow> bool" where
  "keys_ok ids = (sorted_wrt (<) ids \<and> list_all (\<lambda>i. 0 < i) ids)"

definition doctor_user_ids :: "store \<Rightarrow> int list" where
  "doctor_user_ids db = List.map_filter d_user_id (doctors db)"

definition constraints_hold :: "store \<Rightarrow> bool" where
  "constraints_hold db =
     (keys_ok (map h_id (hospitals db)) \<and> keys_ok (map r_id (roles db))
      \<and> keys_ok (map u_id (users db)) \<and> keys_ok (map d_id (doctors db))
      \<and> distinct (map h_name (hospitals db))
      \<and> distinct (map u_username (users db))
      \<and> distinct (map u_email (users db))
      \<and> distinct (doctor_user_ids db))"

subsection \<open>Example data\<close>

text \<open>
  A small database used to run the handlers on concrete requests: one hospital, one role
  of that hospital, one user with that role and the doctor profile of that user.
\<close>

definition example_hash :: "string \<Rightarrow> string" where
  "example_hash password = ''bcrypt:'' @ password"

definition example_db :: store where
  "example_db =
     \<lparr>hospitals = [\<lparr>h_id = 1, h_name = ''A'', h_address = ''North Road'', h_created_at = 5\<rparr>],
      roles = [\<lparr>r_id = 1, r_role_name = ''physician'', r_permissions = ''read,write'',
                r_hospital_id = Some 1\<rparr>],
      users = [\<lparr>u_id = 1, u_username = ''alice'', u_full_name = ''Alice Ames'',
                u_email = ''alice@a.org'', u_hashed_password = ''bcrypt:secret'',
                u_role_id = Some 1\<rparr>],
      doctors = [\<lparr>d_id = 1, d_user_id = Some 1, d_hospital_id = Some 1,
                  d_specialty = ''cardiology'', d_short_bio = None\<rparr>]\<rparr>"

definition hospital_A :: HospitalCreate where
  "hospital_A = \<lparr>hc_name = ''A'', hc_address = ''North Road''\<rparr>"

definition hospital_B :: HospitalCreate where
  "hospital_B = \<lparr>hc_name = ''B'', hc_address = ''South Road''\<rparr>"

definition hospital_C :: HospitalCreate where
  "hospital_C = \<lparr>hc_name = ''C'', hc_address = ''West Road''\<rparr>"

definition role_nurse :: RoleCreate where
  "role_nurse = \<lparr>rc_role_name = ''nurse'', rc_permissions = ''read'', rc_hospital_id = Some 1\<rparr>"

definition user_bob :: UserCreate where
  "user_bob = \<lparr>uc_username = ''bob'', uc_full_name = ''Bob Byrne'', uc_email = ''bob@a.org'',
               uc_role_id = Given (Some 1), uc_password = ''hunter2''\<rparr>"

definition doctor_alice :: DoctorCreate where
  "doctor_alice = \<lparr>dc_user_id = 1, dc_hospital_id = 1, dc_specialty = ''surgery'',
                   dc_short_bio = Some ''On call''\<rparr>"

definition doctor_bob :: DoctorCreate where
  "doctor_bob = \<lparr>dc_user_id = 2, dc_hospital_id = 1, dc_specialty = ''oncology'',
                 dc_short_bio = None\<rparr>"

text \<open>The example database after bob has registered and received a doctor profile.\<close>

definition example_db2 :: store where
  "example_db2 =
     after example_hash 6 (CreateDoctor doctor_bob)
       (after example_hash 6 (CreateUser user_bob) example_db)"

text \<open>The same database with other values in the \<^verbatim>\<open>hashed_password\<close> column.\<close>

definition replace_hashes :: "(User \<Rightarrow> string) \<Rightarrow> store \<Rightarrow> store" where
  "replace_hashes q db = db\<lparr>users := map (\<lambda>u. u\<lparr>u_hashed_password := q u\<rparr>) (users db)\<rparr>"

definition alice_update :: UserCreate where
  "alice_update = \<lparr>uc_username = ''alice'', uc_full_name = ''Alice Ames'',
                   uc_email = ''alice@b.org'', uc_role_id = Unset, uc_password = ''s3cret''\<rparr>"

definition alice_body_without_password :: UserBody where
  "alice_body_without_password =
     \<lparr>ub_username = Some ''alice'', ub_full_name = Some ''Alice Ames'',
      ub_email = Some ''alice@b.org'', ub_role_id = Unset, ub_password = None\<rparr>"

text \<open>Requests whose foreign key is \<open>0\<close>.\<close>

definition role_zero :: RoleCreate where
  "role_zero = \<lparr>rc_role_name = ''porter'', rc_permissions = ''read'', rc_hospital_id = Some 0\<rparr>"

definition user_zero :: UserCreate where
  "user_zero = \<lparr>uc_username = ''carol'', uc_full_name = ''Carol Cole'',
                uc_email = ''carol@a.org'', uc_role_id = Given (Some 0),
                uc_password = ''pa55word''\<rparr>"

definition alice_zero :: UserCreate where
  "alice_zero = \<lparr>uc_username = ''alice'', uc_full_name = ''Alice Ames'',
                 uc_email = ''alice@a.org'', uc_role_id = Given (Some 0), uc_password = []\<rparr>"

text \<open>Requests that refer to rows the example database does not have.\<close>

definition role_dangling :: RoleCreate where
  "role_dangling = \<lparr>rc_role_name = ''porter'', rc_permissions = ''read'',
                    rc_hospital_id = Some 7\<rparr>"

definition user_dangling :: UserCreate where
  "user_dangling = \<lparr>uc_username = ''dave'', uc_full_name = ''Dave Dunn'',
                    uc_email = ''dave@a.org'', uc_role_id = Given (Some 7),
                    uc_password = ''letmein''\<rparr>"

definition alice_dangling :: UserCreate where
  "alice_dangling = \<lparr>uc_username = ''alice'', uc_full_name = ''Alice Ames'',
                     uc_email = ''alice2@a.org'', uc_role_id = Given (Some 7),
                     uc_password = ''letmein''\<rparr>"

definition doctor_dangling :: DoctorCreate where
  "doctor_dangling = \<lparr>dc_user_id = 9, dc_hospital_id = 1, dc_specialty = ''surgery'',
                      dc_short_bio = None\<rparr>"

text \<open>Every doctor row with a \<^verbatim>\<open>user_id\<close> names a user row.\<close>

definition doctor_users_exist :: "store \<Rightarrow> bool" where
  "doctor_users_exist db =
     list_all (\<lambda>d. case d_user_id d of
                      None \<Rightarrow> True
                    | Some k \<Rightarrow> k \<in> set (map u_id (users db)))
              (doctors db)"

text \<open>A second profile for alice, at a hospital that does not exist.\<close>

definition doctor_alice_elsewhere :: DoctorCreate where
  "doctor_alice_elsewhere = \<lparr>dc_user_id = 1, dc_hospital_id = 99, dc_specialty = ''surgery'',
                             dc_short_bio = None\<rparr>"



section \<open>Properties\<close>

subsection \<open>Keys and unique columns\<close>

lemma next_id_fresh: "i \<in> set ids \<Longrightarrow> i < next_id ids"
  unfolding next_id_def using Max_ge [of "set ids" i] by auto

lemma next_id_notin: "next_id ids \<notin> set ids"
  using next_id_fresh [of "next_id ids" ids] by auto

lemma next_id_pos: "list_all (\<lambda>i. 0 < i) ids \<Longrightarrow> 0 < next_id ids"
proof (cases ids)
  case Nil
  then show ?thesis by (simp add: next_id_def)
next
  case (Cons i rest)
  assume "list_all (\<lambda>i. 0 < i) ids"
  with Cons have "0 < i" by simp
  moreover have "i < next_id ids" using Cons next_id_fresh [of i ids] by simp
  ultimately show ?thesis by simp
qed

lemma keys_ok_append: "keys_ok ids \<Longrightarrow> keys_ok (ids @ [next_id ids])"
  unfolding keys_ok_def
  by (simp add: sorted_wrt_append next_id_fresh next_id_pos)

lemma keys_ok_filter: "keys_ok (map key rows) \<Longrightarrow> keys_ok (map key (filter P rows))"
  unfolding keys_ok_def
  by (induction rows) (auto simp: list_all_iff)

lemma keys_ok_distinct: "keys_ok ids \<Longrightarrow> distinct ids"
  unfolding keys_ok_def using strict_sorted_iff by blast

lemma keys_ok_nonzero: "keys_ok ids \<Longrightarrow> (0::int) \<notin> set ids"
  unfolding keys_ok_def by (auto simp: list_all_iff)

lemma map_key_update:
  "(\<And>x. P x \<Longrightarrow> key (g x) = key x) \<Longrightarrow> map key (map (\<lambda>x. if P x then g x else x) rows) = map key rows"
  by (induction rows) auto

lemma distinct_map_filter_rows: "distinct (map f rows) \<Longrightarrow> distinct (map f (filter P rows))"
  by (simp add: distinct_map_filter)

lemma update_absent:
  "\<forall>x\<in>set rows. key x \<noteq> k \<Longrightarrow> map (\<lambda>x. if key x = k then g x else x) rows = rows"
  by (induction rows) auto

lemma distinct_update_values:
  assumes "distinct (map key rows)" and "distinct (map f rows)"
    and "list_all (\<lambda>x. key x = k \<or> f x \<noteq> v) rows"
  shows "distinct (map (\<lambda>x. if key x = k then v else f x) rows)"
proof -
  define h where "h = (\<lambda>x. if key x = k then v else f x)"
  from assms have "distinct (map h rows)"
  proof (induction rows)
    case Nil
    then show ?case by simp
  next
    case (Cons x rows)
    then have IH: "distinct (map h rows)"
      by simp
    from Cons.prems have kx: "\<forall>y\<in>set rows. key y \<noteq> key x"
      and fx: "\<forall>y\<in>set rows. f y \<noteq> f x"
      and free: "\<forall>y\<in>set rows. key y = k \<or> f y \<noteq> v"
      and free_x: "key x = k \<or> f x \<noteq> v"
      by (auto simp: list_all_iff image_iff)
    have "\<forall>y\<in>set rows. h y \<noteq> h x"
    proof
      fix y assume y: "y \<in> set rows"
      show "h y \<noteq> h x"
      proof (cases "key x = k")
        case True
        with kx y have "key y \<noteq> k" by simp
        with free y True show ?thesis by (auto simp: h_def)
      next
        case False
        with free_x have "f x \<noteq> v" by simp
        with fx y False show ?thesis by (auto simp: h_def)
      qed
    qed
    then have "h x \<notin> h ` set rows"
      by (metis imageE)
    with IH show ?case by simp
  qed
  then show ?thesis by (simp add: h_def)
qed

lemma distinct_update_unique:
  assumes "distinct (map key rows)" and "distinct (map f rows)"
    and "list_all (\<lambda>x. key x = k \<or> f x \<noteq> v) rows"
    and "\<And>x. f (g x) = v"
  shows "distinct (map f (map (\<lambda>x. if key x = k then g x else x) rows))"
proof -
  have eq: "map f (map (\<lambda>x. if key x = k then g x else x) rows)
          = map (\<lambda>x. if key x = k then v else f x) rows"
    by (induction rows) (simp_all add: assms(4))
  show ?thesis
    unfolding eq by (rule distinct_update_values [OF assms(1-3)])
qed


lemma map_filter_append:
  "List.map_filter f (xs @ ys) = List.map_filter f xs @ List.map_filter f ys"
  by (simp add: List.map_filter_def)

lemma set_map_filter: "set (List.map_filter f xs) = {y. \<exists>x\<in>set xs. f x = Some y}"
  by (induction xs) (auto split: option.splits)

lemma distinct_map_filter_filter:
  "distinct (List.map_filter f xs) \<Longrightarrow> distinct (List.map_filter f (filter P xs))"
  by (induction xs) (auto simp: set_map_filter split: option.splits)

lemma map_filter_unrelated_update:
  "(\<And>x. f (g x) = f x) \<Longrightarrow>
   List.map_filter f (map (\<lambda>x. if P x then g x else x) xs) = List.map_filter f xs"
  by (induction xs) (auto split: option.splits)

lemma distinct_map_filter_nullify:
  "(\<And>x. f (g x) = None) \<Longrightarrow> distinct (List.map_filter f xs) \<Longrightarrow>
   distinct (List.map_filter f (map (\<lambda>x. if P x then g x else x) xs))"
  by (induction xs) (auto simp: set_map_filter split: option.splits if_splits)

lemma distinct_map_filter_update:
  assumes "distinct (map key rows)" and "distinct (List.map_filter f rows)"
    and "list_all (\<lambda>x. key x = k \<or> f x \<noteq> Some v) rows"
    and "\<And>x. f (g x) = Some v"
  shows "distinct (List.map_filter f (map (\<lambda>x. if key x = k then g x else x) rows))"
  using assms(1-3)
proof (induction rows)
  case Nil
  then show ?case by simp
next
  case (Cons x rows)
  then have IH: "distinct (List.map_filter f (map (\<lambda>x. if key x = k then g x else x) rows))"
    by (auto split: option.splits)
  from Cons.prems have kx: "\<forall>y\<in>set rows. key y \<noteq> key x"
    and free: "\<forall>y\<in>set rows. key y = k \<or> f y \<noteq> Some v"
    and free_x: "key x = k \<or> f x \<noteq> Some v"
    by (auto simp: list_all_iff image_iff)
  show ?case
  proof (cases "key x = k")
    case True
    with kx have absent: "\<forall>y\<in>set rows. key y \<noteq> k" by simp
    with free have "v \<notin> set (List.map_filter f rows)"
      by (auto simp: set_map_filter)
    moreover from Cons.prems have "distinct (List.map_filter f rows)"
      by (auto split: option.splits)
    ultimately show ?thesis using True absent
      by (simp add: update_absent assms(4))
  next
    case False
    with free_x have fx: "f x \<noteq> Some v" by simp
    show ?thesis
    proof (cases "f x")
      case None
      with False IH show ?thesis by simp
    next
      case (Some w)
      with fx have "w \<noteq> v" by simp
      moreover from Cons.prems Some have "w \<notin> set (List.map_filter f rows)"
        by simp
      ultimately have "w \<notin> set (List.map_filter f (map (\<lambda>x. if key x = k then g x else x) rows))"
        by (auto simp: set_map_filter assms(4) split: if_splits)
      with False Some IH show ?thesis by simp
    qed
  qed
qed

lemma find_None_set: "find P xs = None \<Longrightarrow> x \<in> set xs \<Longrightarrow> \<not> P x"
  by (auto simp: find_None_iff)

lemma find_Some_set: "find P xs = Some x \<Longrightarrow> x \<in> set xs \<and> P x"
  by (induction xs) (auto split: if_splits)

lemma map_key_update_comp:
  "(\<And>x. P x \<Longrightarrow> key (g x) = key x) \<Longrightarrow> map (key \<circ> (\<lambda>x. if P x then g x else x)) rows = map key rows"
  by (induction rows) auto

lemma distinct_update_unique_comp:
  assumes "distinct (map key rows)" and "distinct (map f rows)"
    and "list_all (\<lambda>x. key x = k \<or> f x \<noteq> v) rows"
    and "\<And>x. f (g x) = v"
  shows "distinct (map (f \<circ> (\<lambda>x. if key x = k then g x else x)) rows)"
  using distinct_update_unique [OF assms] by simp

lemma distinct_map_filter_update_comp:
  assumes "distinct (map key rows)" and "distinct (List.map_filter f rows)"
    and "list_all (\<lambda>x. key x = k \<or> f x \<noteq> Some v) rows"
    and "\<And>x. f (g x) = Some v"
  shows "distinct (List.map_filter f (map (\<lambda>x. if key x = k then g x else x) rows))"
  by (rule distinct_map_filter_update [OF assms])

lemma fold_apply_item:
  "fold (apply_item hash) (dict_exclude_unset user) u =
     u\<lparr>u_username := uc_username user, u_full_name := uc_full_name user,
       u_email := uc_email user,
       u_role_id := (case uc_role_id user of Unset \<Rightarrow> u_role_id u | Given v \<Rightarrow> v),
       u_hashed_password := (if uc_password user = [] then u_hashed_password u
                             else hash (uc_password user))\<rparr>"
  by (cases "uc_role_id user"; cases "role_id_attr user")
     (auto simp: dict_exclude_unset_def)

lemma update_user_found:
  assumes found: "find (\<lambda>u. u_id u = user_id) (users db) = Some db_user"
  shows "update_user hash user_id user db =
     (if uc_username user \<noteq> u_username db_user
             \<and> find (\<lambda>u. u_username u = uc_username user) (users db) \<noteq> None
          then (db, Inl (HTTPException 400 ''Username already registered''))
          else if uc_email user \<noteq> u_email db_user
             \<and> find (\<lambda>u. u_email u = uc_email user) (users db) \<noteq> None
          then (db, Inl (HTTPException 400 ''Email already registered''))
          else if truthy (role_id_attr user) \<and> role_of (role_id_attr user) db = None
          then (db, Inl (no_row_ref (role_id_attr user) ''Role not found''))
          else if username_free user_id (uc_username user) (users db)
                  \<and> email_free user_id (uc_email user) (users db)
               then (db\<lparr>users := map (\<lambda>u. if u_id u = user_id
                         then fold (apply_item hash) (dict_exclude_unset user) db_user
                         else u) (users db)\<rparr>,
                     Inr (200, user_response
                       (db\<lparr>users := map (\<lambda>u. if u_id u = user_id
                         then fold (apply_item hash) (dict_exclude_unset user) db_user
                         else u) (users db)\<rparr>)
                       (fold (apply_item hash) (dict_exclude_unset user) db_user)))
               else (db, Inl IntegrityError))"
proof -
  have name: "u_username (fold (apply_item hash) (dict_exclude_unset user) db_user)
                = uc_username user"
    and email: "u_email (fold (apply_item hash) (dict_exclude_unset user) db_user)
                = uc_email user"
    by (simp_all add: fold_apply_item)
  show ?thesis
    unfolding update_user_def found option.case Let_def name email ..
qed

lemma no_row_cases:
  "int64 k \<Longrightarrow> no_row k detail = HTTPException 404 detail"
  "\<not> int64 k \<Longrightarrow> no_row k detail = OverflowError"
  by (simp_all add: no_row_def)

text \<open>
  In a table whose keys all fit SQLite's INTEGER, a key outside the range names no row:
  raising \<open>OverflowError\<close> where the lookup of such a key comes back empty is raising
  it at the query.
\<close>

lemma out_of_range_key_absent:
  "list_all int64 (map key rows) \<Longrightarrow> \<not> int64 k \<Longrightarrow> find (\<lambda>x. key x = k) rows = None"
  by (auto simp: find_None_iff list_all_iff)

subsection \<open>Every reachable store satisfies the schema's constraints\<close>

lemma create_hospital_constraints:
  "constraints_hold db \<Longrightarrow> constraints_hold (fst (create_hospital now hospital db))"
  unfolding constraints_hold_def create_hospital_def doctor_user_ids_def
  by (auto simp: Let_def keys_ok_append find_None_iff split: option.splits)

lemma update_hospital_constraints:
  assumes c: "constraints_hold db"
  shows "constraints_hold (fst (update_hospital hospital_id hospital db))"
proof (cases "fst (update_hospital hospital_id hospital db) = db")
  case True
  with c show ?thesis by simp
next
  case False
  define upd :: "Hospital \<Rightarrow> Hospital" where "upd = (\<lambda>h. if h_id h = hospital_id
                 then h\<lparr>h_name := hc_name hospital, h_address := hc_address hospital\<rparr>
                 else h)"
  from False have free: "hospital_name_free hospital_id (hc_name hospital) (hospitals db)"
    and eq: "fst (update_hospital hospital_id hospital db)
               = db\<lparr>hospitals := map upd (hospitals db)\<rparr>"
    by (auto simp: update_hospital_def Let_def upd_def split: option.splits if_splits)
  have keys: "map (h_id \<circ> upd) (hospitals db) = map h_id (hospitals db)"
    unfolding upd_def by (rule map_key_update_comp) simp
  have names: "distinct (map (h_name \<circ> upd) (hospitals db))"
    unfolding upd_def
    by (rule distinct_update_unique_comp [where v = "hc_name hospital"])
       (use c free in \<open>auto simp: constraints_hold_def keys_ok_distinct hospital_name_free_def\<close>)
  from c names show ?thesis
    unfolding eq by (simp add: constraints_hold_def doctor_user_ids_def keys)
qed

lemma delete_hospital_constraints:
  "constraints_hold db \<Longrightarrow> constraints_hold (fst (delete_hospital hospital_id db))"
  unfolding constraints_hold_def delete_hospital_def doctor_user_ids_def
  by (auto simp: keys_ok_filter distinct_map_filter map_key_update_comp
                 map_filter_unrelated_update split: option.splits)

lemma create_role_constraints:
  "constraints_hold db \<Longrightarrow> constraints_hold (fst (create_role role db))"
  unfolding constraints_hold_def create_role_def doctor_user_ids_def
  by (auto simp: Let_def keys_ok_append)

lemma update_role_constraints:
  "constraints_hold db \<Longrightarrow> constraints_hold (fst (update_role role_id role db))"
  unfolding constraints_hold_def update_role_def doctor_user_ids_def
  by (auto simp: Let_def map_key_update_comp split: option.splits)

lemma delete_role_constraints:
  "constraints_hold db \<Longrightarrow> constraints_hold (fst (delete_role role_id db))"
  unfolding constraints_hold_def delete_role_def doctor_user_ids_def
  by (auto simp: keys_ok_filter map_key_update_comp split: option.splits)

lemma create_user_constraints:
  "constraints_hold db \<Longrightarrow> constraints_hold (fst (create_user hash user db))"
  unfolding constraints_hold_def create_user_def doctor_user_ids_def
  by (auto simp: Let_def keys_ok_append find_None_iff)

lemma update_user_constraints:
  assumes c: "constraints_hold db"
  shows "constraints_hold (fst (update_user hash user_id user db))"
proof (cases "fst (update_user hash user_id user db) = db")
  case True
  with c show ?thesis by simp
next
  case False
  then obtain db_user where found: "find (\<lambda>u. u_id u = user_id) (users db) = Some db_user"
    by (cases "find (\<lambda>u. u_id u = user_id) (users db)") (auto simp: update_user_def)
  define db_user' where "db_user' = fold (apply_item hash) (dict_exclude_unset user) db_user"
  define upd :: "User \<Rightarrow> User" where "upd = (\<lambda>u. if u_id u = user_id then db_user' else u)"
  from found have id: "u_id db_user' = user_id"
    using find_Some_set [OF found] by (simp add: db_user'_def fold_apply_item)
  have name: "u_username db_user' = uc_username user"
    and email: "u_email db_user' = uc_email user"
    by (simp_all add: db_user'_def fold_apply_item)
  from False have free: "username_free user_id (uc_username user) (users db)"
      "email_free user_id (uc_email user) (users db)"
    and eq: "fst (update_user hash user_id user db) = db\<lparr>users := map upd (users db)\<rparr>"
    unfolding update_user_found [OF found] upd_def db_user'_def
    by (auto split: if_splits)
  have keys: "map (u_id \<circ> upd) (users db) = map u_id (users db)"
    unfolding upd_def by (rule map_key_update_comp) (simp add: id)
  have names: "distinct (map (u_username \<circ> upd) (users db))"
    unfolding upd_def
    by (rule distinct_update_unique_comp [where v = "uc_username user"])
       (use c free name in \<open>auto simp: constraints_hold_def keys_ok_distinct username_free_def\<close>)
  have emails: "distinct (map (u_email \<circ> upd) (users db))"
    unfolding upd_def
    by (rule distinct_update_unique_comp [where v = "uc_email user"])
       (use c free email in \<open>auto simp: constraints_hold_def keys_ok_distinct email_free_def\<close>)
  from c names emails show ?thesis
    unfolding eq by (simp add: constraints_hold_def doctor_user_ids_def keys)
qed

lemma delete_user_constraints:
  "constraints_hold db \<Longrightarrow> constraints_hold (fst (delete_user user_id db))"
  unfolding constraints_hold_def delete_user_def doctor_user_ids_def
  by (auto simp: keys_ok_filter distinct_map_filter map_key_update_comp
           intro!: distinct_map_filter_nullify split: option.splits)

lemma create_doctor_constraints:
  "constraints_hold db \<Longrightarrow> constraints_hold (fst (create_doctor doctor db))"
  unfolding constraints_hold_def create_doctor_def doctor_user_ids_def
  by (auto simp: Let_def keys_ok_append find_None_iff map_filter_append set_map_filter
           split: sum.splits)

lemma update_doctor_constraints:
  assumes c: "constraints_hold db"
  shows "constraints_hold (fst (update_doctor doctor_id doctor db))"
proof (cases "fst (update_doctor doctor_id doctor db) = db")
  case True
  with c show ?thesis by simp
next
  case False
  define upd :: "Doctor \<Rightarrow> Doctor" where
    "upd = (\<lambda>d. if d_id d = doctor_id
                 then d\<lparr>d_user_id := Some (dc_user_id doctor),
                        d_hospital_id := Some (dc_hospital_id doctor),
                        d_specialty := dc_specialty doctor,
                        d_short_bio := dc_short_bio doctor\<rparr>
                 else d)"
  from False have free: "doctor_user_free doctor_id (dc_user_id doctor) (doctors db)"
    and eq: "fst (update_doctor doctor_id doctor db) = db\<lparr>doctors := map upd (doctors db)\<rparr>"
    by (auto simp: update_doctor_def Let_def upd_def split: option.splits if_splits sum.splits)
  have keys: "map (d_id \<circ> upd) (doctors db) = map d_id (doctors db)"
    unfolding upd_def by (rule map_key_update_comp) simp
  have refs: "distinct (List.map_filter d_user_id (map upd (doctors db)))"
    unfolding upd_def
    by (rule distinct_map_filter_update_comp [where v = "dc_user_id doctor"])
       (use c free in \<open>auto simp: constraints_hold_def keys_ok_distinct doctor_user_free_def
                                  doctor_user_ids_def\<close>)
  from c refs show ?thesis
    unfolding eq by (simp add: constraints_hold_def doctor_user_ids_def keys)
qed

lemma delete_doctor_constraints:
  "constraints_hold db \<Longrightarrow> constraints_hold (fst (delete_doctor doctor_id db))"
  unfolding constraints_hold_def delete_doctor_def doctor_user_ids_def
  by (auto simp: keys_ok_filter distinct_map_filter_filter split: option.splits)

lemma read_fst [simp]:
  "fst (read_hospitals skip limit db) = db" "fst (read_hospital k db) = db"
  "fst (read_roles skip limit db) = db" "fst (read_role k db) = db"
  "fst (read_users skip limit db) = db" "fst (read_user k db) = db"
  "fst (read_doctors skip limit db) = db" "fst (read_doctor k db) = db"
  by (simp_all add: read_hospitals_def read_hospital_def read_roles_def read_role_def
        read_users_def read_user_def read_doctors_def read_doctor_def
        split: option.splits sum.splits)

lemma after_constraints: "constraints_hold db \<Longrightarrow> constraints_hold (after hash now req db)"
  by (cases req)
     (simp_all add: create_hospital_constraints update_hospital_constraints
        delete_hospital_constraints create_role_constraints update_role_constraints
        delete_role_constraints create_user_constraints update_user_constraints
        delete_user_constraints create_doctor_constraints update_doctor_constraints
        delete_doctor_constraints)

lemma empty_store_constraints: "constraints_hold empty_store"
  by (simp add: constraints_hold_def empty_store_def keys_ok_def doctor_user_ids_def)

lemma reachable_constraints: "reachable db \<Longrightarrow> constraints_hold db"
  by (induction rule: reachable.induct) (simp_all add: empty_store_constraints after_constraints)

subsection \<open>Hospital.created\_at\<close>

text \<open>
  Claim C9. \<^verbatim>\<open>created_at\<close> is assigned once, when the hospital is created, and no update
  changes it: after any call of \<^verbatim>\<open>update_hospital\<close>, whether it succeeds or fails and
  whatever name and address it carries, every hospital row has the identity and the
  \<^verbatim>\<open>created_at\<close> it had before; a successful \<^verbatim>\<open>create_hospital\<close> appends one row
  under a fresh identity whose \<^verbatim>\<open>created_at\<close> is the clock value of the insert.
\<close>

theorem update_hospital_created_at:
  "map h_created_at (hospitals (fst (update_hospital hospital_id hospital db)))
     = map h_created_at (hospitals db)
   \<and> map h_id (hospitals (fst (update_hospital hospital_id hospital db)))
     = map h_id (hospitals db)
   \<and> (\<forall>db' r. create_hospital now hospital db = (db', Inr (201, r)) \<longrightarrow>
        hr_created_at r = now
        \<and> (\<exists>row. hospitals db' = hospitals db @ [row] \<and> h_created_at row = now
                 \<and> h_id row = hr_id r \<and> h_id row \<notin> set (map h_id (hospitals db))))"
proof (intro conjI allI impI)
  show "map h_created_at (hospitals (fst (update_hospital hospital_id hospital db)))
     = map h_created_at (hospitals db)"
    by (simp add: update_hospital_def Let_def o_def split: option.splits cong: map_cong)
  show "map h_id (hospitals (fst (update_hospital hospital_id hospital db)))
     = map h_id (hospitals db)"
    by (simp add: update_hospital_def Let_def o_def split: option.splits cong: map_cong)
next
  fix db' r
  assume a: "create_hospital now hospital db = (db', Inr (201, r))"
  then show "hr_created_at r = now"
    by (auto simp: create_hospital_def Let_def hospital_response_def
             split: option.splits if_splits)
  from a show "\<exists>row. hospitals db' = hospitals db @ [row] \<and> h_created_at row = now
                 \<and> h_id row = hr_id r \<and> h_id row \<notin> set (map h_id (hospitals db))"
    using next_id_notin [of "map h_id (hospitals db)"]
    by (auto simp: create_hospital_def Let_def hospital_response_def
             split: option.splits if_splits)
qed

theorem update_hospital_created_at_witness:
  "map h_created_at (hospitals (fst (update_hospital 1 hospital_B example_db))) = [5]
   \<and> map h_name (hospitals (fst (update_hospital 1 hospital_B example_db))) = [''B'']
   \<and> create_hospital 9 hospital_B example_db
       = (example_db\<lparr>hospitals := hospitals example_db
            @ [\<lparr>h_id = 2, h_name = ''B'', h_address = ''South Road'', h_created_at = 9\<rparr>]\<rparr>,
          Inr (201, \<lparr>hr_name = ''B'', hr_address = ''South Road'', hr_id = 2,
                     hr_created_at = 9\<rparr>))
   \<and> hr_created_at \<lparr>hr_name = ''B'', hr_address = ''South Road'', hr_id = 2,
                     hr_created_at = 9\<rparr> = (9::nat)"
proof -
  have c: "create_hospital 9 hospital_B example_db
       = (example_db\<lparr>hospitals := hospitals example_db
            @ [\<lparr>h_id = 2, h_name = ''B'', h_address = ''South Road'', h_created_at = 9\<rparr>]\<rparr>,
          Inr (201, \<lparr>hr_name = ''B'', hr_address = ''South Road'', hr_id = 2,
                     hr_created_at = 9\<rparr>))"
    by (simp add: create_hospital_def hospital_B_def example_db_def next_id_def
                  hospital_name_free_def hospital_response_def)
  have u: "map h_name (hospitals (fst (update_hospital 1 hospital_B example_db))) = [''B'']"
    by (simp add: update_hospital_def hospital_B_def example_db_def
                  hospital_name_free_def hospital_response_def)
  from update_hospital_created_at [of 1 hospital_B example_db 9] c u
  show ?thesis by (simp add: example_db_def)
qed

subsection \<open>Create followed by Get\<close>

lemma find_append:
  "find P (xs @ ys) = (case find P xs of None \<Rightarrow> find P ys | Some x \<Rightarrow> Some x)"
  by (induction xs) auto

lemma next_id_unused: "x \<in> set rows \<Longrightarrow> key x \<noteq> next_id (map key rows)"
  using next_id_fresh [of "key x" "map key rows"] by simp

lemma find_next_id: "find (\<lambda>x. key x = next_id (map key rows)) rows = None"
  by (simp add: find_None_iff next_id_unused)

lemma find_inserted:
  "key row = next_id (map key rows) \<Longrightarrow> find (\<lambda>x. key x = key row) (rows @ [row]) = Some row"
  by (simp add: find_append find_next_id)

lemmas example_defs = example_db_def example_hash_def hospital_A_def hospital_B_def
  hospital_C_def role_nurse_def user_bob_def doctor_alice_def

lemmas handler_defs = create_hospital_def read_hospital_def update_hospital_def delete_hospital_def
  read_hospitals_def create_role_def read_role_def update_role_def delete_role_def
  read_roles_def create_user_def read_user_def delete_user_def read_users_def
  create_doctor_def read_doctor_def update_doctor_def delete_doctor_def read_doctors_def
  hospital_response_def role_response_def user_response_def doctor_response_def
  hospital_of_def role_of_def user_of_def next_id_def sql_offset_def sql_limit_def
  hospital_name_free_def username_free_def email_free_def doctor_user_free_def

text \<open>
  Claim C5. For each of the four resources: when Create succeeds and returns a decorated row,
  Get on the identity of that row, run on the store Create left behind, succeeds and
  returns the same decorated row.
\<close>

theorem create_then_get:
  "(create_hospital now hospital db = (db', Inr (c, hr)) \<longrightarrow>
      read_hospital (hr_id hr) db' = (db', Inr (200, hr)))
   \<and> (create_role role db = (db', Inr (c, rr)) \<longrightarrow>
      read_role (rr_id rr) db' = (db', Inr (200, rr)))
   \<and> (create_user hash user db = (db', Inr (c, ur)) \<longrightarrow>
      read_user (ur_id ur) db' = (db', Inr (200, ur)))
   \<and> (create_doctor doctor db = (db', Inr (c, dr)) \<longrightarrow>
      read_doctor (dr_id dr) db' = (db', Inr (200, dr)))"
proof (intro conjI impI)
  assume "create_hospital now hospital db = (db', Inr (c, hr))"
  then show "read_hospital (hr_id hr) db' = (db', Inr (200, hr))"
    by (auto simp: create_hospital_def read_hospital_def Let_def hospital_response_def
                   find_append find_next_id split: option.splits if_splits)
next
  assume "create_role role db = (db', Inr (c, rr))"
  then show "read_role (rr_id rr) db' = (db', Inr (200, rr))"
    by (auto simp: create_role_def read_role_def Let_def role_response_def
                   find_append find_next_id split: option.splits if_splits)
next
  assume "create_user hash user db = (db', Inr (c, ur))"
  then show "read_user (ur_id ur) db' = (db', Inr (200, ur))"
    by (auto simp: create_user_def read_user_def Let_def user_response_def
                   find_append find_next_id split: option.splits if_splits)
next
  assume a: "create_doctor doctor db = (db', Inr (c, dr))"
  define row where "row =
     \<lparr>d_id = next_id (map d_id (doctors db)), d_user_id = Some (dc_user_id doctor),
      d_hospital_id = Some (dc_hospital_id doctor),
      d_specialty = dc_specialty doctor, d_short_bio = dc_short_bio doctor\<rparr>"
  from a have db': "db' = db\<lparr>doctors := doctors db @ [row]\<rparr>"
    and dr: "doctor_response db' row = Inr dr"
    by (auto simp: create_doctor_def Let_def row_def split: if_splits sum.splits)
  from dr have "dr_id dr = d_id row"
    by (auto simp: doctor_response_def split: option.splits)
  moreover have "d_id row = next_id (map d_id (doctors db))"
    by (simp add: row_def)
  then have "find (\<lambda>d. d_id d = d_id row) (doctors db') = Some row"
    unfolding db' using find_inserted [of d_id row "doctors db"] by simp
  ultimately show "read_doctor (dr_id dr) db' = (db', Inr (200, dr))"
    using dr by (simp add: read_doctor_def)
qed

theorem create_then_get_witness:
  "read_hospital 2 (fst (create_hospital 9 hospital_B example_db))
     = (fst (create_hospital 9 hospital_B example_db),
        Inr (200, \<lparr>hr_name = ''B'', hr_address = ''South Road'', hr_id = 2, hr_created_at = 9\<rparr>))
   \<and> read_role 2 (fst (create_role role_nurse example_db))
     = (fst (create_role role_nurse example_db),
        Inr (200, \<lparr>rr_role_name = ''nurse'', rr_permissions = ''read'', rr_hospital_id = Some 1,
                   rr_id = 2, rr_hospital_name = Some ''A''\<rparr>))
   \<and> read_user 2 (fst (create_user example_hash user_bob example_db))
     = (fst (create_user example_hash user_bob example_db),
        Inr (200, \<lparr>ur_username = ''bob'', ur_full_name = ''Bob Byrne'', ur_email = ''bob@a.org'',
                   ur_role_id = Some 1, ur_id = 2, ur_role_name = Some ''physician''\<rparr>))
   \<and> read_doctor 1 (fst (create_doctor doctor_alice (example_db\<lparr>doctors := []\<rparr>)))
     = (fst (create_doctor doctor_alice (example_db\<lparr>doctors := []\<rparr>)),
        Inr (200, \<lparr>dr_user_id = 1, dr_hospital_id = 1, dr_specialty = ''surgery'',
                   dr_short_bio = Some ''On call'', dr_id = 1, dr_username = Some ''alice'',
                   dr_full_name = Some ''Alice Ames'', dr_hospital_name = Some ''A''\<rparr>))"
proof -
  have h: "create_hospital 9 hospital_B example_db
     = (fst (create_hospital 9 hospital_B example_db),
        Inr (201, \<lparr>hr_name = ''B'', hr_address = ''South Road'', hr_id = 2, hr_created_at = 9\<rparr>))"
    by (simp add: create_hospital_def hospital_response_def hospital_name_free_def next_id_def
                  example_defs)
  have r: "create_role role_nurse example_db
     = (fst (create_role role_nurse example_db),
        Inr (201, \<lparr>rr_role_name = ''nurse'', rr_permissions = ''read'', rr_hospital_id = Some 1,
                   rr_id = 2, rr_hospital_name = Some ''A''\<rparr>))"
    by (simp add: create_role_def role_response_def hospital_of_def next_id_def example_defs)
  have u: "create_user example_hash user_bob example_db
     = (fst (create_user example_hash user_bob example_db),
        Inr (201, \<lparr>ur_username = ''bob'', ur_full_name = ''Bob Byrne'', ur_email = ''bob@a.org'',
                   ur_role_id = Some 1, ur_id = 2, ur_role_name = Some ''physician''\<rparr>))"
    by (simp add: create_user_def user_response_def role_of_def username_free_def
                  email_free_def next_id_def example_defs)
  have d: "create_doctor doctor_alice (example_db\<lparr>doctors := []\<rparr>)
     = (fst (create_doctor doctor_alice (example_db\<lparr>doctors := []\<rparr>)),
        Inr (201, \<lparr>dr_user_id = 1, dr_hospital_id = 1, dr_specialty = ''surgery'',
                   dr_short_bio = Some ''On call'', dr_id = 1, dr_username = Some ''alice'',
                   dr_full_name = Some ''Alice Ames'', dr_hospital_name = Some ''A''\<rparr>))"
    by (simp add: create_doctor_def doctor_response_def user_of_def hospital_of_def
                  doctor_user_free_def next_id_def example_defs)
  from create_then_get [THEN conjunct1, rule_format, OF h]
       create_then_get [THEN conjunct2, THEN conjunct1, rule_format, OF r]
       create_then_get [THEN conjunct2, THEN conjunct2, THEN conjunct1, rule_format, OF u]
       create_then_get [THEN conjunct2, THEN conjunct2, THEN conjunct2, rule_format, OF d]
  show ?thesis by simp
qed

subsection \<open>Deleting a hospital that still has a role\<close>

lemma find_filter_removed: "find (\<lambda>x. key x = k) (filter (\<lambda>x. key x \<noteq> k) rows) = None"
  by (simp add: find_None_iff)

lemma map_column_nullify:
  "map r_hospital_id (map (\<lambda>r. if r_hospital_id r = Some k then r\<lparr>r_hospital_id := None\<rparr> else r)
                          rows)
     = map (\<lambda>fk. if fk = Some k then None else fk) (map r_hospital_id rows)"
  by (induction rows) auto

text \<open>
  Claim C6, as the code has it. Deleting a hospital that exists succeeds, whether or not a
  role refers to it. No role row is removed and the name and permissions of every role
  stay, but the delete does reach the dependent roles: every role whose \<^verbatim>\<open>hospital_id\<close>
  named the deleted hospital has NULL there afterwards, and the other roles keep theirs.
\<close>

theorem delete_hospital_with_role:
  assumes "find (\<lambda>h. h_id h = hospital_id) (hospitals db) = Some h"
  shows "snd (delete_hospital hospital_id db)
           = Inr (204, None)
     \<and> find (\<lambda>h. h_id h = hospital_id) (hospitals (fst (delete_hospital hospital_id db))) = None
     \<and> map r_id (roles (fst (delete_hospital hospital_id db))) = map r_id (roles db)
     \<and> map r_role_name (roles (fst (delete_hospital hospital_id db)))
         = map r_role_name (roles db)
     \<and> map r_permissions (roles (fst (delete_hospital hospital_id db)))
         = map r_permissions (roles db)
     \<and> map r_hospital_id (roles (fst (delete_hospital hospital_id db)))
         = map (\<lambda>fk. if fk = Some hospital_id then None else fk) (map r_hospital_id (roles db))"
  using assms
  by (simp add: delete_hospital_def reply_def find_filter_removed map_key_update
                map_column_nullify
           del: map_map)

theorem delete_hospital_with_role_witness:
  "find (\<lambda>h. h_id h = 1) (hospitals example_db)
     = Some \<lparr>h_id = 1, h_name = ''A'', h_address = ''North Road'', h_created_at = 5\<rparr>
   \<and> map r_id (roles (fst (delete_hospital 1 example_db))) = [1]
   \<and> map r_hospital_id (roles (fst (delete_hospital 1 example_db))) = [None]
   \<and> hospitals (fst (delete_hospital 1 example_db)) = []"
proof -
  have f: "find (\<lambda>h. h_id h = 1) (hospitals example_db)
     = Some \<lparr>h_id = 1, h_name = ''A'', h_address = ''North Road'', h_created_at = 5\<rparr>"
    by (simp add: example_db_def)
  have r: "map r_id (roles example_db) = [1]" "map r_hospital_id (roles example_db) = [Some 1]"
    by (simp_all add: example_db_def)
  have h: "hospitals (fst (delete_hospital 1 example_db)) = []"
    by (simp add: delete_hospital_def reply_def example_db_def)
  from delete_hospital_with_role [OF f] f r h show ?thesis by simp
qed

theorem delete_hospital_with_role_counterexample:
  "map r_hospital_id (roles example_db) = [Some 1]
   \<and> snd (delete_hospital 1 example_db)
       = Inr (204, None)
   \<and> map r_hospital_id (roles (fst (delete_hospital 1 example_db))) = [None]"
  by (simp add: delete_hospital_def reply_def example_db_def)

subsection \<open>Delete\<close>

text \<open>
  Claim C7, as the code has it. For each of the four resources, Delete on the identity of
  an existing row answers with status 204 and no body, and afterwards the table holds the
  rows it held before except those with that identity. Delete on an identity that no row
  has leaves the store as it was; it fails with status 404 when the identity lies in the
  signed 64-bit range, and with \<open>OverflowError\<close>, which reaches the client as status
  500, when it does not.
\<close>

theorem delete_reply:
  "(find (\<lambda>h. h_id h = k) (hospitals db) \<noteq> None \<longrightarrow>
      snd (delete_hospital k db) = Inr (204, None)
      \<and> hospitals (fst (delete_hospital k db)) = filter (\<lambda>h. h_id h \<noteq> k) (hospitals db)
      \<and> find (\<lambda>h. h_id h = k) (hospitals (fst (delete_hospital k db))) = None)
   \<and> (find (\<lambda>r. r_id r = k) (roles db) \<noteq> None \<longrightarrow>
      snd (delete_role k db) = Inr (204, None)
      \<and> roles (fst (delete_role k db)) = filter (\<lambda>r. r_id r \<noteq> k) (roles db)
      \<and> find (\<lambda>r. r_id r = k) (roles (fst (delete_role k db))) = None)
   \<and> (find (\<lambda>u. u_id u = k) (users db) \<noteq> None \<longrightarrow>
      snd (delete_user k db) = Inr (204, None)
      \<and> users (fst (delete_user k db)) = filter (\<lambda>u. u_id u \<noteq> k) (users db)
      \<and> find (\<lambda>u. u_id u = k) (users (fst (delete_user k db))) = None)
   \<and> (find (\<lambda>d. d_id d = k) (doctors db) \<noteq> None \<longrightarrow>
      snd (delete_doctor k db) = Inr (204, None)
      \<and> doctors (fst (delete_doctor k db)) = filter (\<lambda>d. d_id d \<noteq> k) (doctors db)
      \<and> find (\<lambda>d. d_id d = k) (doctors (fst (delete_doctor k db))) = None)
   \<and> (find (\<lambda>h. h_id h = k) (hospitals db) = None \<longrightarrow>
      fst (delete_hospital k db) = db
      \<and> (int64 k \<longrightarrow>
           snd (delete_hospital k db) = Inl (HTTPException 404 ''Hospital not found''))
      \<and> (\<not> int64 k \<longrightarrow> snd (delete_hospital k db) = Inl OverflowError))
   \<and> (find (\<lambda>r. r_id r = k) (roles db) = None \<longrightarrow>
      fst (delete_role k db) = db
      \<and> (int64 k \<longrightarrow> snd (delete_role k db) = Inl (HTTPException 404 ''Role not found''))
      \<and> (\<not> int64 k \<longrightarrow> snd (delete_role k db) = Inl OverflowError))
   \<and> (find (\<lambda>u. u_id u = k) (users db) = None \<longrightarrow>
      fst (delete_user k db) = db
      \<and> (int64 k \<longrightarrow> snd (delete_user k db) = Inl (HTTPException 404 ''User not found''))
      \<and> (\<not> int64 k \<longrightarrow> snd (delete_user k db) = Inl OverflowError))
   \<and> (find (\<lambda>d. d_id d = k) (doctors db) = None \<longrightarrow>
      fst (delete_doctor k db) = db
      \<and> (int64 k \<longrightarrow> snd (delete_doctor k db) = Inl (HTTPException 404 ''Doctor not found''))
      \<and> (\<not> int64 k \<longrightarrow> snd (delete_doctor k db) = Inl OverflowError))"
  by (auto simp: delete_hospital_def delete_role_def delete_user_def delete_doctor_def
                 reply_def no_row_cases find_filter_removed)

theorem delete_reply_witness:
  "delete_hospital 1 example_db
     = (example_db\<lparr>hospitals := [],
          roles := [\<lparr>r_id = 1, r_role_name = ''physician'', r_permissions = ''read,write'',
                    r_hospital_id = None\<rparr>],
          doctors := [\<lparr>d_id = 1, d_user_id = Some 1, d_hospital_id = None,
                      d_specialty = ''cardiology'', d_short_bio = None\<rparr>]\<rparr>,
        Inr (204, None))
   \<and> snd (delete_role 1 example_db) = Inr (204, None)
   \<and> roles (fst (delete_role 1 example_db)) = []
   \<and> snd (delete_user 1 example_db) = Inr (204, None)
   \<and> users (fst (delete_user 1 example_db)) = []
   \<and> snd (delete_doctor 1 example_db) = Inr (204, None)
   \<and> doctors (fst (delete_doctor 1 example_db)) = []
   \<and> delete_hospital 2 example_db
       = (example_db, Inl (HTTPException 404 ''Hospital not found''))
   \<and> delete_role 2 example_db = (example_db, Inl (HTTPException 404 ''Role not found''))
   \<and> delete_user 2 example_db = (example_db, Inl (HTTPException 404 ''User not found''))
   \<and> delete_doctor 2 example_db = (example_db, Inl (HTTPException 404 ''Doctor not found''))
   \<and> delete_doctor 9223372036854775808 example_db = (example_db, Inl OverflowError)"
proof -
  have present: "find (\<lambda>h. h_id h = 1) (hospitals example_db) \<noteq> None"
    "find (\<lambda>r. r_id r = 1) (roles example_db) \<noteq> None"
    "find (\<lambda>u. u_id u = 1) (users example_db) \<noteq> None"
    "find (\<lambda>d. d_id d = 1) (doctors example_db) \<noteq> None"
    by (simp_all add: example_db_def)
  have absent: "find (\<lambda>h. h_id h = 2) (hospitals example_db) = None"
    "find (\<lambda>r. r_id r = 2) (roles example_db) = None"
    "find (\<lambda>u. u_id u = 2) (users example_db) = None"
    "find (\<lambda>d. d_id d = 2) (doctors example_db) = None"
    "find (\<lambda>d. d_id d = 9223372036854775808) (doctors example_db) = None"
    by (simp_all add: example_db_def)
  have range: "int64 2" "\<not> int64 9223372036854775808"
    by (simp_all add: int64_def)
  have rows: "filter (\<lambda>h. h_id h \<noteq> 1) (hospitals example_db) = []"
    "filter (\<lambda>r. r_id r \<noteq> 1) (roles example_db) = []"
    "filter (\<lambda>u. u_id u \<noteq> 1) (users example_db) = []"
    "filter (\<lambda>d. d_id d \<noteq> 1) (doctors example_db) = []"
    by (simp_all add: example_db_def)
  have h: "fst (delete_hospital 1 example_db)
     = example_db\<lparr>hospitals := [],
          roles := [\<lparr>r_id = 1, r_role_name = ''physician'', r_permissions = ''read,write'',
                    r_hospital_id = None\<rparr>],
          doctors := [\<lparr>d_id = 1, d_user_id = Some 1, d_hospital_id = None,
                      d_specialty = ''cardiology'', d_short_bio = None\<rparr>]\<rparr>"
    by (simp add: delete_hospital_def example_db_def)
  note t1 = delete_reply [of 1 example_db]
  note t2 = delete_reply [of 2 example_db]
  note t3 = delete_reply [of 9223372036854775808 example_db]
  from t1 present rows have 1: "snd (delete_hospital 1 example_db) = Inr (204, None)"
    "snd (delete_role 1 example_db) = Inr (204, None)"
    "roles (fst (delete_role 1 example_db)) = []"
    "snd (delete_user 1 example_db) = Inr (204, None)"
    "users (fst (delete_user 1 example_db)) = []"
    "snd (delete_doctor 1 example_db) = Inr (204, None)"
    "doctors (fst (delete_doctor 1 example_db)) = []"
    by simp_all
  from t2 absent range have 2: "delete_hospital 2 example_db
       = (example_db, Inl (HTTPException 404 ''Hospital not found''))"
    "delete_role 2 example_db = (example_db, Inl (HTTPException 404 ''Role not found''))"
    "delete_user 2 example_db = (example_db, Inl (HTTPException 404 ''User not found''))"
    "delete_doctor 2 example_db = (example_db, Inl (HTTPException 404 ''Doctor not found''))"
    by (simp_all add: prod_eq_iff)
  from t3 absent range have 3:
    "delete_doctor 9223372036854775808 example_db = (example_db, Inl OverflowError)"
    by (simp add: prod_eq_iff)
  from 1(1) h have 4: "delete_hospital 1 example_db
     = (example_db\<lparr>hospitals := [],
          roles := [\<lparr>r_id = 1, r_role_name = ''physician'', r_permissions = ''read,write'',
                    r_hospital_id = None\<rparr>],
          doctors := [\<lparr>d_id = 1, d_user_id = Some 1, d_hospital_id = None,
                      d_specialty = ''cardiology'', d_short_bio = None\<rparr>]\<rparr>,
        Inr (204, None))"
    by (simp add: prod_eq_iff)
  from 1 2 3 4 show ?thesis by simp
qed

theorem delete_reply_counterexample:
  "find (\<lambda>h. h_id h = 9223372036854775808) (hospitals example_db) = None
   \<and> delete_hospital 9223372036854775808 example_db = (example_db, Inl OverflowError)"
  by (simp add: delete_hospital_def no_row_def int64_def example_db_def)

subsection \<open>The example databases are reachable\<close>

lemma example_db_reachable: "reachable example_db"
proof -
  have eq: "example_db =
     after example_hash 5
       (CreateDoctor \<lparr>dc_user_id = 1, dc_hospital_id = 1, dc_specialty = ''cardiology'',
                      dc_short_bio = None\<rparr>)
       (after example_hash 5
          (CreateUser \<lparr>uc_username = ''alice'', uc_full_name = ''Alice Ames'',
                       uc_email = ''alice@a.org'', uc_role_id = Given (Some 1),
                       uc_password = ''secret''\<rparr>)
          (after example_hash 5
             (CreateRole \<lparr>rc_role_name = ''physician'', rc_permissions = ''read,write'',
                          rc_hospital_id = Some 1\<rparr>)
             (after example_hash 5 (CreateHospital hospital_A) empty_store)))"
    by (simp add: handler_defs example_defs empty_store_def)
  show ?thesis
    by (subst eq) (intro reachable.step reachable.init)
qed

lemma example_db2_reachable: "reachable example_db2"
  unfolding example_db2_def by (intro reachable.step example_db_reachable)

lemma example_db2_eq:
  "example_db2 = example_db
     \<lparr>users := users example_db
         @ [\<lparr>u_id = 2, u_username = ''bob'', u_full_name = ''Bob Byrne'',
              u_email = ''bob@a.org'', u_hashed_password = ''bcrypt:hunter2'',
              u_role_id = Some 1\<rparr>],
      doctors := doctors example_db
         @ [\<lparr>d_id = 2, d_user_id = Some 2, d_hospital_id = Some 1,
              d_specialty = ''oncology'', d_short_bio = None\<rparr>]\<rparr>"
  by (simp add: example_db2_def doctor_bob_def handler_defs example_defs)

lemma at_most_one_reference:
  "distinct (List.map_filter f rows) \<Longrightarrow> length (filter (\<lambda>x. f x = Some k) rows) \<le> 1"
proof (induction rows)
  case Nil
  then show ?case by simp
next
  case (Cons x rows)
  show ?case
  proof (cases "f x = Some k")
    case True
    with Cons.prems have "k \<notin> set (List.map_filter f rows)" by simp
    then have "filter (\<lambda>x. f x = Some k) rows = []"
      by (auto simp: set_map_filter filter_empty_conv)
    with True show ?thesis by simp
  next
    case False
    with Cons show ?thesis by (auto split: option.splits)
  qed
qed

subsection \<open>Updating a user\<close>

lemma find_map: "find P (map f rows) = map_option f (find (P \<circ> f) rows)"
  by (induction rows) auto

lemma find_update:
  "(\<And>x. key x = k \<Longrightarrow> key (g x) = k) \<Longrightarrow>
   find (\<lambda>x. key x = k) (map (\<lambda>x. if key x = k then g x else x) rows)
     = map_option g (find (\<lambda>x. key x = k) rows)"
  by (induction rows) auto

lemma unique_column_free:
  assumes "distinct (map f rows)" and "find (\<lambda>x. key x = k) rows = Some old"
  shows "list_all (\<lambda>x. key x = k \<or> f x \<noteq> f old) rows"
proof -
  from assms(2) have old: "old \<in> set rows" "key old = k"
    using find_Some_set by fastforce+
  from assms(1) have "inj_on f (set rows)" by (simp add: distinct_map)
  with old have "\<forall>x\<in>set rows. f x = f old \<longrightarrow> key x = k"
    by (auto dest: inj_onD)
  then show ?thesis by (auto simp: list_all_iff)
qed

lemma absent_value_free:
  "find (\<lambda>x. f x = v) rows = None \<Longrightarrow> list_all (\<lambda>x. key x = k \<or> f x \<noteq> v) rows"
  by (auto simp: find_None_iff list_all_iff)

lemma update_user_absent:
  "find (\<lambda>u. u_id u = user_id) (users db) = None \<Longrightarrow>
   update_user hash user_id user db = (db, Inl (no_row user_id ''User not found''))"
  by (simp add: update_user_def)

lemma update_user_success:
  assumes c: "constraints_hold db"
    and found: "find (\<lambda>u. u_id u = user_id) (users db) = Some old"
    and un: "uc_username user = u_username old
             \<or> find (\<lambda>u. u_username u = uc_username user) (users db) = None"
    and em: "uc_email user = u_email old
             \<or> find (\<lambda>u. u_email u = uc_email user) (users db) = None"
    and ro: "\<not> truthy (role_id_attr user) \<or> role_of (role_id_attr user) db \<noteq> None"
  shows "update_user hash user_id user db =
     (db\<lparr>users := map (\<lambda>u. if u_id u = user_id
                             then fold (apply_item hash) (dict_exclude_unset user) old
                             else u) (users db)\<rparr>,
      Inr (200, user_response
                  (db\<lparr>users := map (\<lambda>u. if u_id u = user_id
                             then fold (apply_item hash) (dict_exclude_unset user) old
                             else u) (users db)\<rparr>)
                  (fold (apply_item hash) (dict_exclude_unset user) old)))"
proof -
  from c have d: "distinct (map u_username (users db))" "distinct (map u_email (users db))"
    by (simp_all add: constraints_hold_def)
  have "username_free user_id (uc_username user) (users db)"
    unfolding username_free_def
    using un unique_column_free [OF d(1) found] absent_value_free [of u_username]
    by auto
  moreover have "email_free user_id (uc_email user) (users db)"
    unfolding email_free_def
    using em unique_column_free [OF d(2) found] absent_value_free [of u_email]
    by auto
  ultimately show ?thesis
    unfolding update_user_found [OF found] using un em ro by auto
qed


lemma role_of_users_update: "role_of fk (db\<lparr>users := rows\<rparr>) = role_of fk db"
  by (cases fk) (simp_all add: role_of_def)

lemma replace_hashes_frame:
  "(find (\<lambda>u. u_username u = x) (users (replace_hashes q db)) = None)
     = (find (\<lambda>u. u_username u = x) (users db) = None)"
  "(find (\<lambda>u. u_email u = x) (users (replace_hashes q db)) = None)
     = (find (\<lambda>u. u_email u = x) (users db) = None)"
  "role_of fk (replace_hashes q db) = role_of fk db"
  "username_free k x (users (replace_hashes q db)) = username_free k x (users db)"
  "email_free k x (users (replace_hashes q db)) = email_free k x (users db)"
  by (auto simp: replace_hashes_def find_None_iff role_of_users_update username_free_def
                 email_free_def list_all_iff)

lemma user_response_frame:
  "u_hashed_password_update f u = u' \<Longrightarrow> user_response (db\<lparr>users := rows\<rparr>) u' = user_response db u"
  by (auto simp: user_response_def role_of_users_update)


lemma update_user_reply_independent:
  "snd (update_user hash' user_id (user\<lparr>uc_password := p\<rparr>) (replace_hashes q db))
     = snd (update_user hash user_id user db)"
proof (cases "find (\<lambda>u. u_id u = user_id) (users db)")
  case None
  then have "find (\<lambda>u. u_id u = user_id) (users (replace_hashes q db)) = None"
    by (simp add: replace_hashes_def find_map o_def)
  with None show ?thesis by (simp add: update_user_absent)
next
  case (Some old)
  then have found': "find (\<lambda>u. u_id u = user_id) (users (replace_hashes q db))
                       = Some (old\<lparr>u_hashed_password := q old\<rparr>)"
    by (simp add: replace_hashes_def find_map o_def)
  have attr: "role_id_attr (user\<lparr>uc_password := p\<rparr>) = role_id_attr user"
    by simp
  have resp: "user_response (replace_hashes q db\<lparr>users := rows'\<rparr>)
           (fold (apply_item hash') (dict_exclude_unset (user\<lparr>uc_password := p\<rparr>))
              (old\<lparr>u_hashed_password := q old\<rparr>))
        = user_response (db\<lparr>users := rows\<rparr>)
           (fold (apply_item hash) (dict_exclude_unset user) old)" for rows rows'
    by (cases "uc_role_id user")
       (simp_all add: fold_apply_item user_response_def role_of_users_update
                      replace_hashes_frame(3))
  show ?thesis
    unfolding update_user_found [OF Some] update_user_found [OF found'] attr
    by (simp add: replace_hashes_frame resp)
qed

text \<open>
  Claim C1, as the code has it. The body of an update is a \<^verbatim>\<open>UserCreate\<close>: username,
  full name, email and password are required, and a body without a password is rejected
  with status 422 before the store is read. Only \<^verbatim>\<open>role_id\<close> can be left out. An
  update of an existing user that passes the uniqueness and role checks succeeds with
  status 200 and stores the username, full name and email of the input; the role of the
  input when one was supplied and the stored role otherwise; the hash of the input's
  password when that password is not empty and the stored hash otherwise. The reply is the
  stored row without its hash, and it is the same whatever the password, the hashing
  function and the stored hashes are.
\<close>

theorem update_user_fields:
  assumes "reachable db"
    and "find (\<lambda>u. u_id u = user_id) (users db) = Some old"
    and "uc_username user = u_username old
         \<or> find (\<lambda>u. u_username u = uc_username user) (users db) = None"
    and "uc_email user = u_email old
         \<or> find (\<lambda>u. u_email u = uc_email user) (users db) = None"
    and "\<not> truthy (role_id_attr user) \<or> role_of (role_id_attr user) db \<noteq> None"
  shows "(let new = old\<lparr>u_username := uc_username user, u_full_name := uc_full_name user,
                        u_email := uc_email user,
                        u_role_id := (case uc_role_id user of
                                        Unset \<Rightarrow> u_role_id old | Given v \<Rightarrow> v),
                        u_hashed_password := (if uc_password user = []
                                              then u_hashed_password old
                                              else hash (uc_password user))\<rparr>
          in update_user hash user_id user db
               = (db\<lparr>users := map (\<lambda>u. if u_id u = user_id then new else u) (users db)\<rparr>,
                  Inr (200, user_response db new))
             \<and> find (\<lambda>u. u_id u = user_id) (users (fst (update_user hash user_id user db)))
                 = Some new)
     \<and> (\<forall>body :: UserBody. ub_username body = None \<or> ub_full_name body = None \<or> ub_email body = None
                 \<or> ub_password body = None
          \<longrightarrow> put_user hash user_id body db = (db, Inl RequestValidationError))
     \<and> (\<forall>hash' p q.
           snd (update_user hash' user_id (user\<lparr>uc_password := p\<rparr>) (replace_hashes q db))
             = snd (update_user hash user_id user db))"
proof (intro conjI allI impI)
  from assms(1) have c: "constraints_hold db" by (rule reachable_constraints)
  from assms(2) have id: "u_id old = user_id"
    using find_Some_set by fastforce
  note s = update_user_success [OF c assms(2-5), of hash]
  show "let new = old\<lparr>u_username := uc_username user, u_full_name := uc_full_name user,
                        u_email := uc_email user,
                        u_role_id := (case uc_role_id user of
                                        Unset \<Rightarrow> u_role_id old | Given v \<Rightarrow> v),
                        u_hashed_password := (if uc_password user = []
                                              then u_hashed_password old
                                              else hash (uc_password user))\<rparr>
          in update_user hash user_id user db
               = (db\<lparr>users := map (\<lambda>u. if u_id u = user_id then new else u) (users db)\<rparr>,
                  Inr (200, user_response db new))
             \<and> find (\<lambda>u. u_id u = user_id) (users (fst (update_user hash user_id user db)))
                 = Some new"
    unfolding s Let_def
    by (cases "uc_role_id user")
       (simp_all add: fold_apply_item user_response_def role_of_users_update find_update id
                      assms(2))
next
  fix body :: UserBody
  assume "ub_username body = None \<or> ub_full_name body = None \<or> ub_email body = None
                 \<or> ub_password body = None"
  then show "put_user hash user_id body db = (db, Inl RequestValidationError)"
    by (auto simp: put_user_def validate_UserCreate_def split: option.splits)
next
  fix hash' p q
  show "snd (update_user hash' user_id (user\<lparr>uc_password := p\<rparr>) (replace_hashes q db))
             = snd (update_user hash user_id user db)"
    by (rule update_user_reply_independent)
qed

theorem update_user_fields_witness:
  "reachable example_db
   \<and> update_user example_hash 1 alice_update example_db
       = (example_db\<lparr>users :=
            [\<lparr>u_id = 1, u_username = ''alice'', u_full_name = ''Alice Ames'',
              u_email = ''alice@b.org'', u_hashed_password = ''bcrypt:s3cret'',
              u_role_id = Some 1\<rparr>]\<rparr>,
          Inr (200, \<lparr>ur_username = ''alice'', ur_full_name = ''Alice Ames'',
                     ur_email = ''alice@b.org'', ur_role_id = Some 1, ur_id = 1,
                     ur_role_name = Some ''physician''\<rparr>))
   \<and> put_user example_hash 1 alice_body_without_password example_db
       = (example_db, Inl RequestValidationError)"
proof -
  let ?old = "\<lparr>u_id = 1, u_username = ''alice'', u_full_name = ''Alice Ames'',
               u_email = ''alice@a.org'', u_hashed_password = ''bcrypt:secret'',
               u_role_id = Some 1\<rparr>"
  have f: "find (\<lambda>u. u_id u = 1) (users example_db) = Some ?old"
    by (simp add: example_db_def)
  have un: "uc_username alice_update = u_username ?old
            \<or> find (\<lambda>u. u_username u = uc_username alice_update) (users example_db) = None"
    by (simp add: alice_update_def)
  have em: "uc_email alice_update = u_email ?old
            \<or> find (\<lambda>u. u_email u = uc_email alice_update) (users example_db) = None"
    by (simp add: alice_update_def example_db_def)
  have ro: "\<not> truthy (role_id_attr alice_update)
            \<or> role_of (role_id_attr alice_update) example_db \<noteq> None"
    by (simp add: alice_update_def)
  have b: "ub_username alice_body_without_password = None
           \<or> ub_full_name alice_body_without_password = None
           \<or> ub_email alice_body_without_password = None
           \<or> ub_password alice_body_without_password = None"
    by (simp add: alice_body_without_password_def)
  note t = update_user_fields [OF example_db_reachable f un em ro, of example_hash]
  from t have 1: "update_user example_hash 1 alice_update example_db
       = (example_db\<lparr>users :=
            [\<lparr>u_id = 1, u_username = ''alice'', u_full_name = ''Alice Ames'',
              u_email = ''alice@b.org'', u_hashed_password = ''bcrypt:s3cret'',
              u_role_id = Some 1\<rparr>]\<rparr>,
          Inr (200, \<lparr>ur_username = ''alice'', ur_full_name = ''Alice Ames'',
                     ur_email = ''alice@b.org'', ur_role_id = Some 1, ur_id = 1,
                     ur_role_name = Some ''physician''\<rparr>))"
    by (simp add: Let_def alice_update_def user_response_def role_of_def example_db_def
                  example_hash_def)
  from t b have 2: "put_user example_hash 1 alice_body_without_password example_db
       = (example_db, Inl RequestValidationError)"
    by blast
  from 1 2 example_db_reachable show ?thesis by simp
qed

theorem update_user_without_password_counterexample:
  "put_user example_hash 1 alice_body_without_password example_db
     = (example_db, Inl RequestValidationError)"
  by (simp add: put_user_def validate_UserCreate_def alice_body_without_password_def)

subsection \<open>At most one doctor per user\<close>

lemma find_in_ids: "(find (\<lambda>x. key x = k) rows \<noteq> None) = (k \<in> set (map key rows))"
  by (auto simp: find_None_iff image_iff)

lemma update_user_ids:
  "map u_id (users (fst (update_user hash user_id user db))) = map u_id (users db)"
proof (cases "find (\<lambda>u. u_id u = user_id) (users db)")
  case None
  then show ?thesis by (simp add: update_user_absent)
next
  case (Some old)
  then have id: "u_id old = user_id"
    using find_Some_set by fastforce
  have "map (u_id \<circ> (\<lambda>u. if u_id u = user_id
                 then fold (apply_item hash) (dict_exclude_unset user) old else u)) (users db)
          = map u_id (users db)"
    by (rule map_key_update_comp) (simp add: fold_apply_item id)
  then show ?thesis
    unfolding update_user_found [OF Some] by simp
qed

lemma update_user_doctors:
  "doctors (fst (update_user hash user_id user db)) = doctors db"
proof (cases "find (\<lambda>u. u_id u = user_id) (users db)")
  case None
  then show ?thesis by (simp add: update_user_absent)
next
  case (Some old)
  show ?thesis
    unfolding update_user_found [OF Some] by simp
qed

lemma doctor_users_exist_iff:
  "doctor_users_exist db =
     (\<forall>d\<in>set (doctors db). \<forall>k. d_user_id d = Some k \<longrightarrow> k \<in> set (map u_id (users db)))"
  by (auto simp: doctor_users_exist_def list_all_iff split: option.splits)

lemma after_doctor_users_exist:
  assumes "doctor_users_exist db"
  shows "doctor_users_exist (after hash now req db)"
proof (cases req)
  case (CreateHospital x)
  with assms show ?thesis
    by (auto simp: doctor_users_exist_iff create_hospital_def Let_def split: option.splits)
next
  case (UpdateHospital k x)
  with assms show ?thesis
    by (auto simp: doctor_users_exist_iff update_hospital_def Let_def split: option.splits)
next
  case (DeleteHospital k)
  with assms show ?thesis
    by (auto simp: doctor_users_exist_iff delete_hospital_def split: option.splits if_splits)
next
  case (CreateRole x)
  with assms show ?thesis
    by (auto simp: doctor_users_exist_iff create_role_def Let_def)
next
  case (UpdateRole k x)
  with assms show ?thesis
    by (auto simp: doctor_users_exist_iff update_role_def Let_def split: option.splits)
next
  case (DeleteRole k)
  with assms show ?thesis
    by (simp add: doctor_users_exist_iff delete_role_def map_key_update_comp
             del: set_map split: option.splits)
next
  case (CreateUser x)
  with assms show ?thesis
    by (auto simp: doctor_users_exist_iff create_user_def Let_def simp del: role_id_attr.simps)
next
  case (UpdateUser k x)
  with assms show ?thesis
    by (simp add: doctor_users_exist_iff update_user_ids update_user_doctors)
next
  case (DeleteUser k)
  with assms show ?thesis
    by (auto simp: doctor_users_exist_iff delete_user_def split: option.splits if_splits)
next
  case (CreateDoctor x)
  with assms show ?thesis
    by (auto simp: doctor_users_exist_iff create_doctor_def Let_def find_None_iff image_iff
             split: sum.splits if_splits)
       metis+
next
  case (UpdateDoctor k x)
  with assms show ?thesis
    by (auto simp: doctor_users_exist_iff update_doctor_def Let_def find_None_iff image_iff
             split: option.splits sum.splits if_splits)
next
  case (DeleteDoctor k)
  with assms show ?thesis
    by (auto simp: doctor_users_exist_iff delete_doctor_def split: option.splits)
qed (use assms in simp_all)

lemma reachable_doctor_users_exist: "reachable db \<Longrightarrow> doctor_users_exist db"
proof (induction rule: reachable.induct)
  case init
  show ?case by (simp add: doctor_users_exist_def empty_store_def)
next
  case (step db hash now req)
  then show ?case by (simp add: after_doctor_users_exist)
qed


text \<open>
  Claim C3, as the code has it. In every store the requests can produce, each user is
  referenced by at most one doctor row, and every further request keeps it so. Creating a
  doctor for a user who already has one fails and leaves the store, hence the first doctor
  row, as it was. The hospital of the request is checked before the doctor profile: the
  failure is status 400 when that hospital exists; when it does not, it is status 404, or
  \<open>OverflowError\<close> (status 500) for a hospital identity outside the signed 64-bit
  range. \<^verbatim>\<open>update_doctor\<close> cannot move a doctor onto a user that another doctor row
  holds: the call fails and the store stays as it was.
\<close>

theorem one_doctor_per_user:
  assumes "reachable db"
  shows "length (filter (\<lambda>d. d_user_id d = Some user_id) (doctors db)) \<le> 1
     \<and> length (filter (\<lambda>d. d_user_id d = Some user_id) (doctors (after hash now req db))) \<le> 1
     \<and> (find (\<lambda>d. d_user_id d = Some (dc_user_id doctor)) (doctors db) \<noteq> None \<longrightarrow>
          fst (create_doctor doctor db) = db
          \<and> (find (\<lambda>h. h_id h = dc_hospital_id doctor) (hospitals db) \<noteq> None \<longrightarrow>
               snd (create_doctor doctor db)
                 = Inl (HTTPException 400 ''User already has a doctor profile''))
          \<and> (find (\<lambda>h. h_id h = dc_hospital_id doctor) (hospitals db) = None
               \<and> int64 (dc_hospital_id doctor) \<longrightarrow>
               snd (create_doctor doctor db) = Inl (HTTPException 404 ''Hospital not found''))
          \<and> (find (\<lambda>h. h_id h = dc_hospital_id doctor) (hospitals db) = None
               \<and> \<not> int64 (dc_hospital_id doctor) \<longrightarrow>
               snd (create_doctor doctor db) = Inl OverflowError))
     \<and> (\<forall>d. d \<in> set (doctors db) \<and> d_id d \<noteq> doctor_id
              \<and> d_user_id d = Some (dc_user_id doctor)
        \<longrightarrow> fst (update_doctor doctor_id doctor db) = db
            \<and> (\<exists>e. snd (update_doctor doctor_id doctor db) = Inl e))"
proof (intro conjI allI impI)
  from assms have "constraints_hold db" by (rule reachable_constraints)
  then have "distinct (List.map_filter d_user_id (doctors db))"
    by (simp add: constraints_hold_def doctor_user_ids_def)
  then show "length (filter (\<lambda>d. d_user_id d = Some user_id) (doctors db)) \<le> 1"
    by (rule at_most_one_reference)
  from assms have "reachable (after hash now req db)" by (rule reachable.step)
  then have "constraints_hold (after hash now req db)" by (rule reachable_constraints)
  then have "distinct (List.map_filter d_user_id (doctors (after hash now req db)))"
    by (simp add: constraints_hold_def doctor_user_ids_def)
  then show "length (filter (\<lambda>d. d_user_id d = Some user_id)
                            (doctors (after hash now req db))) \<le> 1"
    by (rule at_most_one_reference)
next
  assume has: "find (\<lambda>d. d_user_id d = Some (dc_user_id doctor)) (doctors db) \<noteq> None"
  then obtain d where "d \<in> set (doctors db)" "d_user_id d = Some (dc_user_id doctor)"
    by (auto simp: find_None_iff)
  with reachable_doctor_users_exist [OF assms]
  have "dc_user_id doctor \<in> set (map u_id (users db))"
    by (auto simp: doctor_users_exist_iff)
  then have user: "find (\<lambda>u. u_id u = dc_user_id doctor) (users db) \<noteq> None"
    by (simp only: find_in_ids)
  from user show "fst (create_doctor doctor db) = db"
    using has by (auto simp: create_doctor_def)
  {
    assume "find (\<lambda>h. h_id h = dc_hospital_id doctor) (hospitals db) \<noteq> None"
    with user has show "snd (create_doctor doctor db)
                 = Inl (HTTPException 400 ''User already has a doctor profile'')"
      by (auto simp: create_doctor_def)
  }
  {
    assume "find (\<lambda>h. h_id h = dc_hospital_id doctor) (hospitals db) = None
               \<and> int64 (dc_hospital_id doctor)"
    with user show "snd (create_doctor doctor db) = Inl (HTTPException 404 ''Hospital not found'')"
      by (auto simp: create_doctor_def no_row_cases)
  }
  {
    assume "find (\<lambda>h. h_id h = dc_hospital_id doctor) (hospitals db) = None
               \<and> \<not> int64 (dc_hospital_id doctor)"
    with user show "snd (create_doctor doctor db) = Inl OverflowError"
      by (auto simp: create_doctor_def no_row_cases)
  }
next
  fix d
  assume d: "d \<in> set (doctors db) \<and> d_id d \<noteq> doctor_id
              \<and> d_user_id d = Some (dc_user_id doctor)"
  then have taken: "\<not> doctor_user_free doctor_id (dc_user_id doctor) (doctors db)"
    by (auto simp: doctor_user_free_def list_all_iff)
  then show "fst (update_doctor doctor_id doctor db) = db"
    by (simp add: update_doctor_def Let_def split: option.splits)
  from taken show "\<exists>e. snd (update_doctor doctor_id doctor db) = Inl e"
    by (simp add: update_doctor_def Let_def split: option.splits)
qed

theorem one_doctor_per_user_witness:
  "reachable example_db2
   \<and> length (filter (\<lambda>d. d_user_id d = Some 1) (doctors example_db2)) = 1
   \<and> length (filter (\<lambda>d. d_user_id d = Some 1)
        (doctors (after example_hash 7 (UpdateDoctor 2 doctor_alice) example_db2))) = 1
   \<and> create_doctor doctor_alice example_db2
       = (example_db2, Inl (HTTPException 400 ''User already has a doctor profile''))
   \<and> create_doctor doctor_alice_elsewhere example_db2
       = (example_db2, Inl (HTTPException 404 ''Hospital not found''))
   \<and> update_doctor 2 doctor_alice example_db2 = (example_db2, Inl IntegrityError)"
proof -
  have c: "find (\<lambda>d. d_user_id d = Some (dc_user_id doctor_alice)) (doctors example_db2) \<noteq> None"
    "find (\<lambda>h. h_id h = dc_hospital_id doctor_alice) (hospitals example_db2) \<noteq> None"
    "find (\<lambda>d. d_user_id d = Some (dc_user_id doctor_alice_elsewhere)) (doctors example_db2)
       \<noteq> None"
    "find (\<lambda>h. h_id h = dc_hospital_id doctor_alice_elsewhere) (hospitals example_db2) = None
       \<and> int64 (dc_hospital_id doctor_alice_elsewhere)"
    by (simp_all add: example_db2_eq example_defs doctor_alice_elsewhere_def int64_def)
  have u: "update_doctor 2 doctor_alice example_db2 = (example_db2, Inl IntegrityError)"
    by (simp add: example_db2_eq update_doctor_def doctor_user_free_def example_defs)
  have d: "\<lparr>d_id = 1, d_user_id = Some 1, d_hospital_id = Some 1,
            d_specialty = ''cardiology'', d_short_bio = None\<rparr> \<in> set (doctors example_db2)
        \<and> d_id \<lparr>d_id = 1, d_user_id = Some 1, d_hospital_id = Some 1,
            d_specialty = ''cardiology'', d_short_bio = None\<rparr> \<noteq> 2
        \<and> d_user_id \<lparr>d_id = 1, d_user_id = Some 1, d_hospital_id = Some 1,
            d_specialty = ''cardiology'', d_short_bio = None\<rparr> = Some (dc_user_id doctor_alice)"
    by (simp add: example_db2_eq example_defs)
  have n: "length (filter (\<lambda>d. d_user_id d = Some 1) (doctors example_db2)) = 1"
    by (simp add: example_db2_eq example_defs)
  note t1 = one_doctor_per_user [OF example_db2_reachable, of 1 example_hash 7
         "UpdateDoctor 2 doctor_alice" doctor_alice 2]
  note t2 = one_doctor_per_user [OF example_db2_reachable, of 1 example_hash 7
         "UpdateDoctor 2 doctor_alice" doctor_alice_elsewhere 2]
  from t1 c(1,2) have 1: "create_doctor doctor_alice example_db2
       = (example_db2, Inl (HTTPException 400 ''User already has a doctor profile''))"
    by (simp add: prod_eq_iff)
  from t2 c(3,4) have 2: "create_doctor doctor_alice_elsewhere example_db2
       = (example_db2, Inl (HTTPException 404 ''Hospital not found''))"
    by (simp add: prod_eq_iff)
  from u n have 3: "length (filter (\<lambda>d. d_user_id d = Some 1)
        (doctors (after example_hash 7 (UpdateDoctor 2 doctor_alice) example_db2))) = 1"
    by simp
  from 1 2 3 u n example_db2_reachable show ?thesis by simp
qed

theorem one_doctor_per_user_counterexample:
  "find (\<lambda>d. d_user_id d = Some 1) (doctors example_db) \<noteq> None
   \<and> dc_user_id doctor_alice_elsewhere = 1
   \<and> create_doctor doctor_alice_elsewhere example_db
       = (example_db, Inl (HTTPException 404 ''Hospital not found''))"
  by (simp add: create_doctor_def no_row_def int64_def doctor_alice_elsewhere_def
                example_db_def)

subsection \<open>A foreign key of zero\<close>

lemma no_row_zero:
  assumes "constraints_hold db"
  shows "find (\<lambda>h. h_id h = 0) (hospitals db) = None"
    and "find (\<lambda>r. r_id r = 0) (roles db) = None"
proof -
  from assms have k: "keys_ok (map h_id (hospitals db))" "keys_ok (map r_id (roles db))"
    by (simp_all add: constraints_hold_def)
  have "0 \<notin> set (map h_id (hospitals db))" "0 \<notin> set (map r_id (roles db))"
    by (rule keys_ok_nonzero [OF k(1)], rule keys_ok_nonzero [OF k(2)])
  then show "find (\<lambda>h. h_id h = 0) (hospitals db) = None"
    and "find (\<lambda>r. r_id r = 0) (roles db) = None"
    by (auto simp: find_None_iff image_iff)
qed

lemma hospital_of_frame:
  "hospital_of fk (db\<lparr>roles := rows\<rparr>) = hospital_of fk db"
  by (cases fk) (simp_all add: hospital_of_def)

lemma create_role_zero:
  assumes "constraints_hold db" and "rc_hospital_id role = Some 0"
  shows "create_role role db
     = (db\<lparr>roles := roles db
            @ [\<lparr>r_id = next_id (map r_id (roles db)), r_role_name = rc_role_name role,
                 r_permissions = rc_permissions role, r_hospital_id = Some 0\<rparr>]\<rparr>,
        Inr (201, \<lparr>rr_role_name = rc_role_name role, rr_permissions = rc_permissions role,
                   rr_hospital_id = Some 0, rr_id = next_id (map r_id (roles db)),
                   rr_hospital_name = None\<rparr>))"
  using assms(2) no_row_zero(1) [OF assms(1)]
  by (simp add: create_role_def Let_def role_response_def hospital_of_frame)
     (simp add: hospital_of_def)

lemma update_role_zero:
  assumes "constraints_hold db" and "rc_hospital_id role = Some 0"
    and "find (\<lambda>r. r_id r = role_id) (roles db) = Some old"
  shows "update_role role_id role db
     = (db\<lparr>roles := map (\<lambda>r. if r_id r = role_id
                             then r\<lparr>r_role_name := rc_role_name role,
                                    r_permissions := rc_permissions role,
                                    r_hospital_id := Some 0\<rparr>
                             else r) (roles db)\<rparr>,
        Inr (200, \<lparr>rr_role_name = rc_role_name role, rr_permissions = rc_permissions role,
                   rr_hospital_id = Some 0, rr_id = role_id, rr_hospital_name = None\<rparr>))"
    and "find (\<lambda>r. r_id r = role_id) (roles (fst (update_role role_id role db)))
     = Some (old\<lparr>r_role_name := rc_role_name role, r_permissions := rc_permissions role,
                 r_hospital_id := Some 0\<rparr>)"
proof -
  from assms(3) have id: "r_id old = role_id"
    using find_Some_set by fastforce
  show u: "update_role role_id role db
     = (db\<lparr>roles := map (\<lambda>r. if r_id r = role_id
                             then r\<lparr>r_role_name := rc_role_name role,
                                    r_permissions := rc_permissions role,
                                    r_hospital_id := Some 0\<rparr>
                             else r) (roles db)\<rparr>,
        Inr (200, \<lparr>rr_role_name = rc_role_name role, rr_permissions = rc_permissions role,
                   rr_hospital_id = Some 0, rr_id = role_id, rr_hospital_name = None\<rparr>))"
    using assms(2,3) no_row_zero(1) [OF assms(1)] id
    by (simp add: update_role_def Let_def role_response_def hospital_of_frame)
       (simp add: hospital_of_def)
  show "find (\<lambda>r. r_id r = role_id) (roles (fst (update_role role_id role db)))
     = Some (old\<lparr>r_role_name := rc_role_name role, r_permissions := rc_permissions role,
                 r_hospital_id := Some 0\<rparr>)"
    unfolding u using assms(3) by (simp add: find_update)
qed

lemma create_user_zero:
  assumes "uc_role_id user = Given (Some 0)"
  shows "snd (create_user hash user db) \<noteq> Inl (HTTPException 404 ''Role not found'')"
    and "find (\<lambda>u. u_username u = uc_username user) (users db) = None \<Longrightarrow>
         find (\<lambda>u. u_email u = uc_email user) (users db) = None \<Longrightarrow>
         create_user hash user db
           = (db\<lparr>users := users db
                 @ [\<lparr>u_id = next_id (map u_id (users db)), u_username = uc_username user,
                      u_full_name = uc_full_name user, u_email = uc_email user,
                      u_hashed_password = hash (uc_password user), u_role_id = Some 0\<rparr>]\<rparr>,
              Inr (201, \<lparr>ur_username = uc_username user, ur_full_name = uc_full_name user,
                         ur_email = uc_email user, ur_role_id = Some 0,
                         ur_id = next_id (map u_id (users db)),
                         ur_role_name = map_option r_role_name (role_of (Some 0) db)\<rparr>))"
proof -
  note attr = assms
  show "snd (create_user hash user db) \<noteq> Inl (HTTPException 404 ''Role not found'')"
    by (simp add: create_user_def attr Let_def)
  assume "find (\<lambda>u. u_username u = uc_username user) (users db) = None"
    and "find (\<lambda>u. u_email u = uc_email user) (users db) = None"
  then show "create_user hash user db
           = (db\<lparr>users := users db
                 @ [\<lparr>u_id = next_id (map u_id (users db)), u_username = uc_username user,
                      u_full_name = uc_full_name user, u_email = uc_email user,
                      u_hashed_password = hash (uc_password user), u_role_id = Some 0\<rparr>]\<rparr>,
              Inr (201, \<lparr>ur_username = uc_username user, ur_full_name = uc_full_name user,
                         ur_email = uc_email user, ur_role_id = Some 0,
                         ur_id = next_id (map u_id (users db)),
                         ur_role_name = map_option r_role_name (role_of (Some 0) db)\<rparr>))"
    using absent_value_free [of u_username "uc_username user" "users db" u_id]
          absent_value_free [of u_email "uc_email user" "users db" u_id]
    by (simp add: create_user_def attr Let_def user_response_def role_of_users_update
                  username_free_def email_free_def)
qed

lemma update_user_zero:
  assumes "uc_role_id user = Given (Some 0)"
  shows "snd (update_user hash user_id user db) \<noteq> Inl (HTTPException 404 ''Role not found'')"
proof (cases "find (\<lambda>u. u_id u = user_id) (users db)")
  case None
  then show ?thesis by (simp add: update_user_absent no_row_def)
next
  case (Some old)
  show ?thesis
    unfolding update_user_found [OF Some] using assms by simp
qed

lemma update_role_zero_reply:
  assumes "rc_hospital_id role = Some 0"
  shows "snd (update_role role_id role db) \<noteq> Inl (HTTPException 404 ''Hospital not found'')"
  using assms
  by (simp add: update_role_def Let_def no_row_def split: option.splits)

text \<open>
  Claim C10, as the code has it. The existence check of a referenced hospital or role is
  guarded by the truthiness of the key, so it is skipped for the key \<open>0\<close>: with
  \<^verbatim>\<open>hospital_id = 0\<close> the role handlers never answer "Hospital not found", and with
  \<^verbatim>\<open>role_id = 0\<close> the user handlers never answer "Role not found". No reachable store
  has a hospital or a role with identity \<open>0\<close>; nevertheless the row is stored with the
  key \<open>0\<close> whenever the other checks of the handler pass: always for \<^verbatim>\<open>create_role\<close>,
  when the role to update exists for \<^verbatim>\<open>update_role\<close>, when username and email are new
  for \<^verbatim>\<open>create_user\<close>, and when the user to update exists and the username and email
  checks pass for \<^verbatim>\<open>update_user\<close>. The replies carry no hospital name and no role
  name.
\<close>

theorem zero_foreign_key_not_checked:
  assumes "reachable db"
  shows "find (\<lambda>h. h_id h = 0) (hospitals db) = None
     \<and> find (\<lambda>r. r_id r = 0) (roles db) = None
     \<and> (rc_hospital_id role = Some 0 \<longrightarrow>
          create_role role db
            = (db\<lparr>roles := roles db
                  @ [\<lparr>r_id = next_id (map r_id (roles db)), r_role_name = rc_role_name role,
                       r_permissions = rc_permissions role, r_hospital_id = Some 0\<rparr>]\<rparr>,
               Inr (201, \<lparr>rr_role_name = rc_role_name role,
                          rr_permissions = rc_permissions role, rr_hospital_id = Some 0,
                          rr_id = next_id (map r_id (roles db)), rr_hospital_name = None\<rparr>)))
     \<and> (rc_hospital_id role = Some 0 \<longrightarrow>
          snd (update_role role_id role db) \<noteq> Inl (HTTPException 404 ''Hospital not found''))
     \<and> (rc_hospital_id role = Some 0
          \<and> find (\<lambda>r. r_id r = role_id) (roles db) = Some old_role \<longrightarrow>
          snd (update_role role_id role db)
            = Inr (200, \<lparr>rr_role_name = rc_role_name role,
                         rr_permissions = rc_permissions role, rr_hospital_id = Some 0,
                         rr_id = role_id, rr_hospital_name = None\<rparr>)
          \<and> find (\<lambda>r. r_id r = role_id) (roles (fst (update_role role_id role db)))
              = Some (old_role\<lparr>r_role_name := rc_role_name role,
                               r_permissions := rc_permissions role,
                               r_hospital_id := Some 0\<rparr>))
     \<and> (uc_role_id user = Given (Some 0) \<longrightarrow>
          snd (create_user hash user db) \<noteq> Inl (HTTPException 404 ''Role not found'')
          \<and> (find (\<lambda>u. u_username u = uc_username user) (users db) = None
               \<and> find (\<lambda>u. u_email u = uc_email user) (users db) = None \<longrightarrow>
               create_user hash user db
                 = (db\<lparr>users := users db
                       @ [\<lparr>u_id = next_id (map u_id (users db)),
                            u_username = uc_username user, u_full_name = uc_full_name user,
                            u_email = uc_email user,
                            u_hashed_password = hash (uc_password user),
                            u_role_id = Some 0\<rparr>]\<rparr>,
                    Inr (201, \<lparr>ur_username = uc_username user,
                               ur_full_name = uc_full_name user, ur_email = uc_email user,
                               ur_role_id = Some 0, ur_id = next_id (map u_id (users db)),
                               ur_role_name = None\<rparr>))))
     \<and> (uc_role_id user = Given (Some 0) \<longrightarrow>
          snd (update_user hash user_id user db) \<noteq> Inl (HTTPException 404 ''Role not found''))
     \<and> (uc_role_id user = Given (Some 0)
          \<and> find (\<lambda>u. u_id u = user_id) (users db) = Some old
          \<and> (uc_username user = u_username old
               \<or> find (\<lambda>u. u_username u = uc_username user) (users db) = None)
          \<and> (uc_email user = u_email old
               \<or> find (\<lambda>u. u_email u = uc_email user) (users db) = None) \<longrightarrow>
          snd (update_user hash user_id user db)
            = Inr (200, \<lparr>ur_username = uc_username user,
                         ur_full_name = uc_full_name user, ur_email = uc_email user,
                         ur_role_id = Some 0, ur_id = user_id, ur_role_name = None\<rparr>)
          \<and> map_option u_role_id
                (find (\<lambda>u. u_id u = user_id)
                      (users (fst (update_user hash user_id user db))))
              = Some (Some 0))"
proof -
  from assms have c: "constraints_hold db" by (rule reachable_constraints)
  note z = no_row_zero [OF c]
  have role0: "role_of (Some 0) db = None"
    by (simp add: role_of_def z)
  have A: "rc_hospital_id role = Some 0 \<longrightarrow>
          create_role role db
            = (db\<lparr>roles := roles db
                  @ [\<lparr>r_id = next_id (map r_id (roles db)), r_role_name = rc_role_name role,
                       r_permissions = rc_permissions role, r_hospital_id = Some 0\<rparr>]\<rparr>,
               Inr (201, \<lparr>rr_role_name = rc_role_name role,
                          rr_permissions = rc_permissions role, rr_hospital_id = Some 0,
                          rr_id = next_id (map r_id (roles db)), rr_hospital_name = None\<rparr>))"
    using create_role_zero [OF c] by blast
  have B0: "rc_hospital_id role = Some 0 \<longrightarrow>
          snd (update_role role_id role db) \<noteq> Inl (HTTPException 404 ''Hospital not found'')"
    using update_role_zero_reply by blast
  have B: "rc_hospital_id role = Some 0
          \<and> find (\<lambda>r. r_id r = role_id) (roles db) = Some old_role \<longrightarrow>
          snd (update_role role_id role db)
            = Inr (200, \<lparr>rr_role_name = rc_role_name role,
                         rr_permissions = rc_permissions role, rr_hospital_id = Some 0,
                         rr_id = role_id, rr_hospital_name = None\<rparr>)
          \<and> find (\<lambda>r. r_id r = role_id) (roles (fst (update_role role_id role db)))
              = Some (old_role\<lparr>r_role_name := rc_role_name role,
                               r_permissions := rc_permissions role,
                               r_hospital_id := Some 0\<rparr>)"
  proof (intro impI, elim conjE)
    assume h: "rc_hospital_id role = Some 0"
      "find (\<lambda>r. r_id r = role_id) (roles db) = Some old_role"
    from update_role_zero(1) [OF c h] update_role_zero(2) [OF c h]
    show "snd (update_role role_id role db)
            = Inr (200, \<lparr>rr_role_name = rc_role_name role,
                         rr_permissions = rc_permissions role, rr_hospital_id = Some 0,
                         rr_id = role_id, rr_hospital_name = None\<rparr>)
          \<and> find (\<lambda>r. r_id r = role_id) (roles (fst (update_role role_id role db)))
              = Some (old_role\<lparr>r_role_name := rc_role_name role,
                               r_permissions := rc_permissions role,
                               r_hospital_id := Some 0\<rparr>)"
      by simp
  qed
  have C: "uc_role_id user = Given (Some 0) \<longrightarrow>
          snd (create_user hash user db) \<noteq> Inl (HTTPException 404 ''Role not found'')
          \<and> (find (\<lambda>u. u_username u = uc_username user) (users db) = None
               \<and> find (\<lambda>u. u_email u = uc_email user) (users db) = None \<longrightarrow>
               create_user hash user db
                 = (db\<lparr>users := users db
                       @ [\<lparr>u_id = next_id (map u_id (users db)),
                            u_username = uc_username user, u_full_name = uc_full_name user,
                            u_email = uc_email user,
                            u_hashed_password = hash (uc_password user),
                            u_role_id = Some 0\<rparr>]\<rparr>,
                    Inr (201, \<lparr>ur_username = uc_username user,
                               ur_full_name = uc_full_name user, ur_email = uc_email user,
                               ur_role_id = Some 0, ur_id = next_id (map u_id (users db)),
                               ur_role_name = None\<rparr>)))"
    using create_user_zero(1) [of user hash db] create_user_zero(2) [of user db hash]
    by (simp add: role0)
  have D0: "uc_role_id user = Given (Some 0) \<longrightarrow>
          snd (update_user hash user_id user db) \<noteq> Inl (HTTPException 404 ''Role not found'')"
    using update_user_zero by blast
  have D: "uc_role_id user = Given (Some 0)
          \<and> find (\<lambda>u. u_id u = user_id) (users db) = Some old
          \<and> (uc_username user = u_username old
               \<or> find (\<lambda>u. u_username u = uc_username user) (users db) = None)
          \<and> (uc_email user = u_email old
               \<or> find (\<lambda>u. u_email u = uc_email user) (users db) = None) \<longrightarrow>
          snd (update_user hash user_id user db)
            = Inr (200, \<lparr>ur_username = uc_username user,
                         ur_full_name = uc_full_name user, ur_email = uc_email user,
                         ur_role_id = Some 0, ur_id = user_id, ur_role_name = None\<rparr>)
          \<and> map_option u_role_id
                (find (\<lambda>u. u_id u = user_id)
                      (users (fst (update_user hash user_id user db))))
              = Some (Some 0)"
  proof (intro impI conjI; elim conjE)
    assume h: "uc_role_id user = Given (Some 0)"
      "find (\<lambda>u. u_id u = user_id) (users db) = Some old"
    assume un: "uc_username user = u_username old
                \<or> find (\<lambda>u. u_username u = uc_username user) (users db) = None"
      and em: "uc_email user = u_email old
                    \<or> find (\<lambda>u. u_email u = uc_email user) (users db) = None"
    from h(1) have ro: "\<not> truthy (role_id_attr user) \<or> role_of (role_id_attr user) db \<noteq> None"
      by simp
    from h(2) have id: "u_id old = user_id"
      using find_Some_set by fastforce
    note s = update_user_success [OF c h(2) un em ro, of hash]
    show "snd (update_user hash user_id user db)
                 = Inr (200, \<lparr>ur_username = uc_username user,
                              ur_full_name = uc_full_name user, ur_email = uc_email user,
                              ur_role_id = Some 0, ur_id = user_id, ur_role_name = None\<rparr>)"
      unfolding s
      by (simp add: fold_apply_item user_response_def role_of_users_update h(1) role0 id)
    show "map_option u_role_id
                     (find (\<lambda>u. u_id u = user_id)
                           (users (fst (update_user hash user_id user db))))
                   = Some (Some 0)"
      unfolding s
      by (simp add: fold_apply_item find_update h id)
  qed
  from z A B0 B C D0 D show ?thesis by blast
qed

theorem zero_foreign_key_not_checked_witness:
  "reachable example_db
   \<and> find (\<lambda>h. h_id h = 0) (hospitals example_db) = None
   \<and> find (\<lambda>r. r_id r = 0) (roles example_db) = None
   \<and> snd (create_role role_zero example_db)
       = Inr (201, \<lparr>rr_role_name = ''porter'', rr_permissions = ''read'',
                    rr_hospital_id = Some 0, rr_id = 2, rr_hospital_name = None\<rparr>)
   \<and> snd (update_role 1 role_zero example_db)
       = Inr (200, \<lparr>rr_role_name = ''porter'', rr_permissions = ''read'',
                    rr_hospital_id = Some 0, rr_id = 1, rr_hospital_name = None\<rparr>)
   \<and> snd (create_user example_hash user_zero example_db)
       = Inr (201, \<lparr>ur_username = ''carol'', ur_full_name = ''Carol Cole'',
                    ur_email = ''carol@a.org'', ur_role_id = Some 0, ur_id = 2,
                    ur_role_name = None\<rparr>)
   \<and> snd (update_user example_hash 1 alice_zero example_db)
       = Inr (200, \<lparr>ur_username = ''alice'', ur_full_name = ''Alice Ames'',
                    ur_email = ''alice@a.org'', ur_role_id = Some 0, ur_id = 1,
                    ur_role_name = None\<rparr>)"
proof -
  let ?role = "\<lparr>r_id = 1, r_role_name = ''physician'', r_permissions = ''read,write'',
                r_hospital_id = Some 1\<rparr>"
  let ?alice = "\<lparr>u_id = 1, u_username = ''alice'', u_full_name = ''Alice Ames'',
                 u_email = ''alice@a.org'', u_hashed_password = ''bcrypt:secret'',
                 u_role_id = Some 1\<rparr>"
  note t1 = zero_foreign_key_not_checked [OF example_db_reachable,
              of role_zero 1 ?role user_zero example_hash 1 ?alice]
  note t2 = zero_foreign_key_not_checked [OF example_db_reachable,
              of role_zero 1 ?role alice_zero example_hash 1 ?alice]
  have r: "rc_hospital_id role_zero = Some 0"
    "find (\<lambda>r. r_id r = 1) (roles example_db) = Some ?role"
    by (simp_all add: role_zero_def example_db_def)
  have u: "uc_role_id user_zero = Given (Some 0)"
    "find (\<lambda>u. u_username u = uc_username user_zero) (users example_db) = None"
    "find (\<lambda>u. u_email u = uc_email user_zero) (users example_db) = None"
    by (simp_all add: user_zero_def example_db_def)
  have a: "uc_role_id alice_zero = Given (Some 0)"
    "find (\<lambda>u. u_id u = 1) (users example_db) = Some ?alice"
    "uc_username alice_zero = u_username ?alice" "uc_email alice_zero = u_email ?alice"
    by (simp_all add: alice_zero_def example_db_def)
  from t1 have z: "find (\<lambda>h. h_id h = 0) (hospitals example_db) = None"
    "find (\<lambda>r. r_id r = 0) (roles example_db) = None"
    by blast+
  from t1 r have 1: "snd (create_role role_zero example_db)
       = Inr (201, \<lparr>rr_role_name = ''porter'', rr_permissions = ''read'',
                    rr_hospital_id = Some 0, rr_id = 2, rr_hospital_name = None\<rparr>)"
    by (simp add: role_zero_def example_db_def next_id_def)
  from t1 r have 2: "snd (update_role 1 role_zero example_db)
       = Inr (200, \<lparr>rr_role_name = ''porter'', rr_permissions = ''read'',
                    rr_hospital_id = Some 0, rr_id = 1, rr_hospital_name = None\<rparr>)"
    by (simp add: role_zero_def)
  from t1 u have 3: "snd (create_user example_hash user_zero example_db)
       = Inr (201, \<lparr>ur_username = ''carol'', ur_full_name = ''Carol Cole'',
                    ur_email = ''carol@a.org'', ur_role_id = Some 0, ur_id = 2,
                    ur_role_name = None\<rparr>)"
    by (simp add: user_zero_def example_db_def next_id_def)
  from t2 a have 4: "snd (update_user example_hash 1 alice_zero example_db)
       = Inr (200, \<lparr>ur_username = ''alice'', ur_full_name = ''Alice Ames'',
                    ur_email = ''alice@a.org'', ur_role_id = Some 0, ur_id = 1,
                    ur_role_name = None\<rparr>)"
    by (simp add: alice_zero_def)
  from example_db_reachable z 1 2 3 4 show ?thesis by simp
qed

theorem zero_foreign_key_not_checked_counterexample:
  "update_role 9 role_zero example_db
     = (example_db, Inl (HTTPException 404 ''Role not found''))
   \<and> create_user example_hash (alice_zero\<lparr>uc_email := ''alice3@a.org''\<rparr>) example_db
     = (example_db, Inl (HTTPException 400 ''Username already registered''))"
  by (simp add: update_role_def create_user_def no_row_def int64_def role_zero_def
                alice_zero_def example_db_def)

subsection \<open>References to rows that do not exist\<close>

text \<open>
  Claim C2, as the code has it. Take a Create or Update of a role or a user whose
  \<^verbatim>\<open>hospital_id\<close> or \<^verbatim>\<open>role_id\<close> is neither null nor \<open>0\<close> and names no row, or a
  Create or Update of a doctor whose \<^verbatim>\<open>user_id\<close> or \<^verbatim>\<open>hospital_id\<close> names no row.
  The call fails and leaves the store as it was, and the failure is that of the first
  check the handler reaches. A lookup that finds no row, be it the target of an Update or
  a referenced row, gives status 404 when the identity lies in the signed 64-bit range
  and \<open>OverflowError\<close> (status 500) when it does not (this is \<open>no_row\<close>). The user
  handlers look at the username and the email before the role: \<^verbatim>\<open>create_user\<close> answers
  400 when the username or the email is stored, \<^verbatim>\<open>update_user\<close> when the username or
  the email is changed to a stored one, and only otherwise is the role looked up.
\<close>

theorem dangling_reference_rejected:
  "(rc_hospital_id role = Some k \<and> k \<noteq> 0 \<and> find (\<lambda>h. h_id h = k) (hospitals db) = None \<longrightarrow>
      create_role role db = (db, Inl (no_row k ''Hospital not found''))
      \<and> (find (\<lambda>r. r_id r = role_id) (roles db) \<noteq> None \<longrightarrow>
           update_role role_id role db = (db, Inl (no_row k ''Hospital not found'')))
      \<and> (find (\<lambda>r. r_id r = role_id) (roles db) = None \<longrightarrow>
           update_role role_id role db = (db, Inl (no_row role_id ''Role not found''))))
   \<and> (role_id_attr user = Some k \<and> k \<noteq> 0 \<and> find (\<lambda>r. r_id r = k) (roles db) = None \<longrightarrow>
      create_user hash user db
        = (db, Inl (if find (\<lambda>u. u_username u = uc_username user) (users db) \<noteq> None
                    then HTTPException 400 ''Username already registered''
                    else if find (\<lambda>u. u_email u = uc_email user) (users db) \<noteq> None
                    then HTTPException 400 ''Email already registered''
                    else no_row k ''Role not found''))
      \<and> (find (\<lambda>u. u_id u = user_id) (users db) = None \<longrightarrow>
           update_user hash user_id user db = (db, Inl (no_row user_id ''User not found'')))
      \<and> (\<forall>old. find (\<lambda>u. u_id u = user_id) (users db) = Some old \<longrightarrow>
           update_user hash user_id user db
             = (db, Inl (if uc_username user \<noteq> u_username old
                            \<and> find (\<lambda>u. u_username u = uc_username user) (users db) \<noteq> None
                         then HTTPException 400 ''Username already registered''
                         else if uc_email user \<noteq> u_email old
                            \<and> find (\<lambda>u. u_email u = uc_email user) (users db) \<noteq> None
                         then HTTPException 400 ''Email already registered''
                         else no_row k ''Role not found''))))
   \<and> (find (\<lambda>u. u_id u = dc_user_id doctor) (users db) = None
       \<or> find (\<lambda>h. h_id h = dc_hospital_id doctor) (hospitals db) = None \<longrightarrow>
      create_doctor doctor db
        = (db, Inl (if find (\<lambda>u. u_id u = dc_user_id doctor) (users db) = None
                    then no_row (dc_user_id doctor) ''User not found''
                    else no_row (dc_hospital_id doctor) ''Hospital not found''))
      \<and> (find (\<lambda>d. d_id d = doctor_id) (doctors db) \<noteq> None \<longrightarrow>
           update_doctor doctor_id doctor db
             = (db, Inl (if find (\<lambda>u. u_id u = dc_user_id doctor) (users db) = None
                         then no_row (dc_user_id doctor) ''User not found''
                         else no_row (dc_hospital_id doctor) ''Hospital not found'')))
      \<and> (find (\<lambda>d. d_id d = doctor_id) (doctors db) = None \<longrightarrow>
           update_doctor doctor_id doctor db
             = (db, Inl (no_row doctor_id ''Doctor not found''))))
   \<and> (int64 k \<longrightarrow> no_row k detail = HTTPException 404 detail)
   \<and> (\<not> int64 k \<longrightarrow> no_row k detail = OverflowError)"
proof (intro conjI impI allI; (elim conjE)?)
  assume h: "rc_hospital_id role = Some k" "k \<noteq> 0"
    "find (\<lambda>h. h_id h = k) (hospitals db) = None"
  then have g: "truthy (rc_hospital_id role)" "hospital_of (rc_hospital_id role) db = None"
    "no_row_ref (rc_hospital_id role) ''Hospital not found'' = no_row k ''Hospital not found''"
    by (simp_all add: hospital_of_def)
  show "create_role role db = (db, Inl (no_row k ''Hospital not found''))"
    by (simp add: create_role_def g)
  {
    assume "find (\<lambda>r. r_id r = role_id) (roles db) \<noteq> None"
    then show "update_role role_id role db = (db, Inl (no_row k ''Hospital not found''))"
      by (auto simp: update_role_def g)
  }
  {
    assume "find (\<lambda>r. r_id r = role_id) (roles db) = None"
    then show "update_role role_id role db = (db, Inl (no_row role_id ''Role not found''))"
      by (simp add: update_role_def)
  }
next
  assume h: "role_id_attr user = Some k" "k \<noteq> 0"
    "find (\<lambda>r. r_id r = k) (roles db) = None"
  then have g: "truthy (role_id_attr user)" "role_of (role_id_attr user) db = None"
    "no_row_ref (role_id_attr user) ''Role not found'' = no_row k ''Role not found''"
    by (simp_all add: role_of_def del: role_id_attr.simps)
  show "create_user hash user db
        = (db, Inl (if find (\<lambda>u. u_username u = uc_username user) (users db) \<noteq> None
                    then HTTPException 400 ''Username already registered''
                    else if find (\<lambda>u. u_email u = uc_email user) (users db) \<noteq> None
                    then HTTPException 400 ''Email already registered''
                    else no_row k ''Role not found''))"
    unfolding create_user_def by (simp add: g del: role_id_attr.simps)
  {
    assume "find (\<lambda>u. u_id u = user_id) (users db) = None"
    then show "update_user hash user_id user db = (db, Inl (no_row user_id ''User not found''))"
      by (rule update_user_absent)
  }
  {
    fix old
    assume found: "find (\<lambda>u. u_id u = user_id) (users db) = Some old"
    show "update_user hash user_id user db
             = (db, Inl (if uc_username user \<noteq> u_username old
                            \<and> find (\<lambda>u. u_username u = uc_username user) (users db) \<noteq> None
                         then HTTPException 400 ''Username already registered''
                         else if uc_email user \<noteq> u_email old
                            \<and> find (\<lambda>u. u_email u = uc_email user) (users db) \<noteq> None
                         then HTTPException 400 ''Email already registered''
                         else no_row k ''Role not found''))"
      unfolding update_user_found [OF found] by (simp add: g del: role_id_attr.simps)
  }
next
  assume h: "find (\<lambda>u. u_id u = dc_user_id doctor) (users db) = None
       \<or> find (\<lambda>h. h_id h = dc_hospital_id doctor) (hospitals db) = None"
  then show "create_doctor doctor db
        = (db, Inl (if find (\<lambda>u. u_id u = dc_user_id doctor) (users db) = None
                    then no_row (dc_user_id doctor) ''User not found''
                    else no_row (dc_hospital_id doctor) ''Hospital not found''))"
    by (auto simp: create_doctor_def)
  {
    assume "find (\<lambda>d. d_id d = doctor_id) (doctors db) \<noteq> None"
    with h show "update_doctor doctor_id doctor db
             = (db, Inl (if find (\<lambda>u. u_id u = dc_user_id doctor) (users db) = None
                         then no_row (dc_user_id doctor) ''User not found''
                         else no_row (dc_hospital_id doctor) ''Hospital not found''))"
      by (auto simp: update_doctor_def)
  }
  {
    assume "find (\<lambda>d. d_id d = doctor_id) (doctors db) = None"
    then show "update_doctor doctor_id doctor db
             = (db, Inl (no_row doctor_id ''Doctor not found''))"
      by (simp add: update_doctor_def)
  }
next
  assume "int64 k"
  then show "no_row k detail = HTTPException 404 detail"
    by (rule no_row_cases)
next
  assume "\<not> int64 k"
  then show "no_row k detail = OverflowError"
    by (rule no_row_cases)
qed

theorem dangling_reference_rejected_witness:
  "create_role role_dangling example_db
     = (example_db, Inl (HTTPException 404 ''Hospital not found''))
   \<and> update_role 1 role_dangling example_db
     = (example_db, Inl (HTTPException 404 ''Hospital not found''))
   \<and> update_role 5 role_dangling example_db
     = (example_db, Inl (HTTPException 404 ''Role not found''))
   \<and> create_user example_hash user_dangling example_db
     = (example_db, Inl (HTTPException 404 ''Role not found''))
   \<and> update_user example_hash 1 alice_dangling example_db
     = (example_db, Inl (HTTPException 404 ''Role not found''))
   \<and> update_user example_hash 5 alice_dangling example_db
     = (example_db, Inl (HTTPException 404 ''User not found''))
   \<and> create_doctor doctor_dangling example_db
     = (example_db, Inl (HTTPException 404 ''User not found''))
   \<and> update_doctor 1 doctor_dangling example_db
     = (example_db, Inl (HTTPException 404 ''User not found''))
   \<and> update_doctor 5 doctor_dangling example_db
     = (example_db, Inl (HTTPException 404 ''Doctor not found''))"
proof -
  let ?alice = "\<lparr>u_id = 1, u_username = ''alice'', u_full_name = ''Alice Ames'',
                 u_email = ''alice@a.org'', u_hashed_password = ''bcrypt:secret'',
                 u_role_id = Some 1\<rparr>"
  note t1 = dangling_reference_rejected [of role_dangling 7 example_db 1 user_dangling
              example_hash 1 doctor_dangling 1]
  note t5 = dangling_reference_rejected [of role_dangling 7 example_db 5 alice_dangling
              example_hash 5 doctor_dangling 5]
  note ta = dangling_reference_rejected [of role_dangling 7 example_db 1 alice_dangling
              example_hash 1 doctor_dangling 1]
  have range: "int64 7" "int64 5" "int64 9"
    by (simp_all add: int64_def)
  have nr: "no_row 7 d = HTTPException 404 d" "no_row 5 d = HTTPException 404 d"
    "no_row 9 d = HTTPException 404 d" for d
    using range by (simp_all add: no_row_cases)
  have r: "rc_hospital_id role_dangling = Some 7" "(7::int) \<noteq> 0"
    "find (\<lambda>h. h_id h = 7) (hospitals example_db) = None"
    "find (\<lambda>r. r_id r = 1) (roles example_db) \<noteq> None"
    "find (\<lambda>r. r_id r = 5) (roles example_db) = None"
    by (simp_all add: role_dangling_def example_db_def)
  have u: "role_id_attr user_dangling = Some 7" "role_id_attr alice_dangling = Some 7"
    "find (\<lambda>r. r_id r = 7) (roles example_db) = None"
    "find (\<lambda>u. u_username u = uc_username user_dangling) (users example_db) = None"
    "find (\<lambda>u. u_email u = uc_email user_dangling) (users example_db) = None"
    "find (\<lambda>u. u_id u = 1) (users example_db) = Some ?alice"
    "find (\<lambda>u. u_id u = 5) (users example_db) = None"
    "uc_username alice_dangling = u_username ?alice"
    "find (\<lambda>u. u_email u = uc_email alice_dangling) (users example_db) = None"
    by (simp_all add: user_dangling_def alice_dangling_def example_db_def)
  have d: "find (\<lambda>u. u_id u = dc_user_id doctor_dangling) (users example_db) = None"
    "dc_user_id doctor_dangling = 9"
    "find (\<lambda>d. d_id d = 1) (doctors example_db) \<noteq> None"
    "find (\<lambda>d. d_id d = 5) (doctors example_db) = None"
    by (simp_all add: doctor_dangling_def example_db_def)
  from t1 r have 1: "create_role role_dangling example_db
       = (example_db, Inl (HTTPException 404 ''Hospital not found''))"
    "update_role 1 role_dangling example_db
       = (example_db, Inl (HTTPException 404 ''Hospital not found''))"
    by (simp_all add: nr)
  from t5 r have 2: "update_role 5 role_dangling example_db
       = (example_db, Inl (HTTPException 404 ''Role not found''))"
    by (simp add: nr)
  from t1 u have 3: "create_user example_hash user_dangling example_db
       = (example_db, Inl (HTTPException 404 ''Role not found''))"
    by (simp add: nr)
  from ta u have 4: "update_user example_hash 1 alice_dangling example_db
       = (example_db, Inl (HTTPException 404 ''Role not found''))"
    by (simp add: nr)
  from t5 u have 5: "update_user example_hash 5 alice_dangling example_db
       = (example_db, Inl (HTTPException 404 ''User not found''))"
    by (simp add: nr)
  from t1 d have 6: "create_doctor doctor_dangling example_db
       = (example_db, Inl (HTTPException 404 ''User not found''))"
    "update_doctor 1 doctor_dangling example_db
       = (example_db, Inl (HTTPException 404 ''User not found''))"
    by (simp_all add: nr)
  from t5 d have 7: "update_doctor 5 doctor_dangling example_db
       = (example_db, Inl (HTTPException 404 ''Doctor not found''))"
    by (simp add: nr)
  from 1 2 3 4 5 6 7 show ?thesis by simp
qed

theorem dangling_reference_rejected_counterexample:
  "find (\<lambda>h. h_id h = 0) (hospitals example_db) = None
   \<and> create_role role_zero example_db
       = (example_db\<lparr>roles := roles example_db
            @ [\<lparr>r_id = 2, r_role_name = ''porter'', r_permissions = ''read'',
                 r_hospital_id = Some 0\<rparr>]\<rparr>,
          Inr (201, \<lparr>rr_role_name = ''porter'', rr_permissions = ''read'',
                     rr_hospital_id = Some 0, rr_id = 2, rr_hospital_name = None\<rparr>))
   \<and> find (\<lambda>r. r_id r = 7) (roles example_db) = None
   \<and> create_user example_hash alice_dangling example_db
       = (example_db, Inl (HTTPException 400 ''Username already registered''))
   \<and> find (\<lambda>h. h_id h = 9223372036854775808) (hospitals example_db) = None
   \<and> create_role (role_dangling\<lparr>rc_hospital_id := Some 9223372036854775808\<rparr>) example_db
       = (example_db, Inl OverflowError)"
  by (simp add: create_role_def create_user_def role_response_def hospital_of_def next_id_def
                no_row_def int64_def role_zero_def role_dangling_def alice_dangling_def
                example_db_def)

subsection \<open>Two Creates with the same unique value\<close>

lemma find_append_Some: "find P rows \<noteq> None \<Longrightarrow> find P (rows @ rest) \<noteq> None"
  by (auto simp: find_append split: option.splits)

lemma find_append_last: "P x \<Longrightarrow> find P (rows @ [x]) \<noteq> None"
  by (auto simp: find_append split: option.splits)

lemma create_hospital_fresh:
  assumes "find (\<lambda>h. h_name h = hc_name hospital) (hospitals db) = None"
  shows "create_hospital now hospital db
     = (db\<lparr>hospitals := hospitals db
            @ [\<lparr>h_id = next_id (map h_id (hospitals db)), h_name = hc_name hospital,
                 h_address = hc_address hospital, h_created_at = now\<rparr>]\<rparr>,
        Inr (201, \<lparr>hr_name = hc_name hospital, hr_address = hc_address hospital,
                   hr_id = next_id (map h_id (hospitals db)), hr_created_at = now\<rparr>))"
  using assms absent_value_free [OF assms, of h_id]
  by (simp add: create_hospital_def Let_def hospital_name_free_def hospital_response_def)

lemma create_user_fresh:
  assumes "find (\<lambda>u. u_username u = uc_username user) (users db) = None"
    and "find (\<lambda>u. u_email u = uc_email user) (users db) = None"
    and "\<not> truthy (role_id_attr user) \<or> role_of (role_id_attr user) db \<noteq> None"
  shows "create_user hash user db
     = (db\<lparr>users := users db
            @ [\<lparr>u_id = next_id (map u_id (users db)), u_username = uc_username user,
                 u_full_name = uc_full_name user, u_email = uc_email user,
                 u_hashed_password = hash (uc_password user),
                 u_role_id = role_id_attr user\<rparr>]\<rparr>,
        Inr (201, \<lparr>ur_username = uc_username user, ur_full_name = uc_full_name user,
                   ur_email = uc_email user, ur_role_id = role_id_attr user,
                   ur_id = next_id (map u_id (users db)),
                   ur_role_name = map_option r_role_name (role_of (role_id_attr user) db)\<rparr>))"
  using assms absent_value_free [OF assms(1), of u_id] absent_value_free [OF assms(2), of u_id]
  by (auto simp: create_user_def Let_def username_free_def email_free_def user_response_def
                 role_of_users_update simp del: role_id_attr.simps)

lemma create_user_stores:
  assumes "create_user hash user db = (db1, Inr (c, r))"
  shows "c = 201"
    and "\<exists>row. users db1 = users db @ [row] \<and> u_username row = uc_username user
              \<and> u_email row = uc_email user"
  using assms
  by (auto simp: create_user_def Let_def split: if_splits simp del: role_id_attr.simps)

lemma create_hospital_stores:
  assumes "create_hospital now hospital db = (db1, Inr (c, r))"
  shows "c = 201"
    and "\<exists>row. hospitals db1 = hospitals db @ [row] \<and> h_name row = hc_name hospital"
  using assms
  by (auto simp: create_hospital_def Let_def split: if_splits option.splits)

text \<open>
  Claim C4, as the code has it. A Create whose hospital name, username or email is already
  stored fails with status 400 and inserts nothing. So when the first of two Creates with
  the same value succeeds, the second, run on the store the first left behind, fails with
  status 400 and changes nothing: one success and one Conflict. The first Create succeeds
  when the value is stored nowhere (for a user: username and email are both new and the
  role is null, \<open>0\<close> or an existing role); when the value is already stored, the first
  Create is itself a Conflict.
\<close>

theorem duplicate_unique_value_conflict:
  "(find (\<lambda>h. h_name h = hc_name hospital) (hospitals db) \<noteq> None \<longrightarrow>
      create_hospital now hospital db
        = (db, Inl (HTTPException 400 ''Hospital with this name already exists'')))
   \<and> (find (\<lambda>u. u_username u = uc_username user) (users db) \<noteq> None
       \<or> find (\<lambda>u. u_email u = uc_email user) (users db) \<noteq> None \<longrightarrow>
      fst (create_user hash user db) = db
      \<and> (\<exists>detail. snd (create_user hash user db) = Inl (HTTPException 400 detail)))
   \<and> (find (\<lambda>h. h_name h = hc_name hospital) (hospitals db) = None \<longrightarrow>
      (\<exists>db1 r. create_hospital now hospital db = (db1, Inr (201, r))))
   \<and> (find (\<lambda>u. u_username u = uc_username user) (users db) = None
       \<and> find (\<lambda>u. u_email u = uc_email user) (users db) = None
       \<and> (\<not> truthy (role_id_attr user) \<or> role_of (role_id_attr user) db \<noteq> None) \<longrightarrow>
      (\<exists>db1 r. create_user hash user db = (db1, Inr (201, r))))
   \<and> (create_hospital now hospital db = (db1, Inr (c, hr))
       \<and> hc_name hospital2 = hc_name hospital \<longrightarrow>
      create_hospital now2 hospital2 db1
        = (db1, Inl (HTTPException 400 ''Hospital with this name already exists'')))
   \<and> (create_user hash user db = (db1, Inr (c, ur))
       \<and> (uc_username user2 = uc_username user \<or> uc_email user2 = uc_email user) \<longrightarrow>
      fst (create_user hash2 user2 db1) = db1
      \<and> (\<exists>detail. snd (create_user hash2 user2 db1) = Inl (HTTPException 400 detail)))"
proof -
  have taken_h: "create_hospital now' hospital' db'
        = (db', Inl (HTTPException 400 ''Hospital with this name already exists''))"
    if "find (\<lambda>h. h_name h = hc_name hospital') (hospitals db') \<noteq> None"
    for now' hospital' db'
    using that by (auto simp: create_hospital_def)
  have taken_u: "fst (create_user hash' user' db') = db'
      \<and> (\<exists>detail. snd (create_user hash' user' db') = Inl (HTTPException 400 detail))"
    if "find (\<lambda>u. u_username u = uc_username user') (users db') \<noteq> None
       \<or> find (\<lambda>u. u_email u = uc_email user') (users db') \<noteq> None"
    for hash' user' db'
    using that by (auto simp: create_user_def simp del: role_id_attr.simps)
  have A: "find (\<lambda>h. h_name h = hc_name hospital) (hospitals db) \<noteq> None \<longrightarrow>
      create_hospital now hospital db
        = (db, Inl (HTTPException 400 ''Hospital with this name already exists''))"
    using taken_h by blast
  have B: "find (\<lambda>u. u_username u = uc_username user) (users db) \<noteq> None
       \<or> find (\<lambda>u. u_email u = uc_email user) (users db) \<noteq> None \<longrightarrow>
      fst (create_user hash user db) = db
      \<and> (\<exists>detail. snd (create_user hash user db) = Inl (HTTPException 400 detail))"
    using taken_u by blast
  have C: "find (\<lambda>h. h_name h = hc_name hospital) (hospitals db) = None \<longrightarrow>
      (\<exists>db1 r. create_hospital now hospital db = (db1, Inr (201, r)))"
    using create_hospital_fresh by blast
  have D: "find (\<lambda>u. u_username u = uc_username user) (users db) = None
       \<and> find (\<lambda>u. u_email u = uc_email user) (users db) = None
       \<and> (\<not> truthy (role_id_attr user) \<or> role_of (role_id_attr user) db \<noteq> None) \<longrightarrow>
      (\<exists>db1 r. create_user hash user db = (db1, Inr (201, r)))"
    using create_user_fresh by blast
  have E: "create_hospital now hospital db = (db1, Inr (c, hr))
       \<and> hc_name hospital2 = hc_name hospital \<longrightarrow>
      create_hospital now2 hospital2 db1
        = (db1, Inl (HTTPException 400 ''Hospital with this name already exists''))"
  proof (intro impI, elim conjE)
    assume a: "create_hospital now hospital db = (db1, Inr (c, hr))"
      and same: "hc_name hospital2 = hc_name hospital"
    from create_hospital_stores(2) [OF a] obtain row
      where "hospitals db1 = hospitals db @ [row]" "h_name row = hc_name hospital"
      by blast
    with same have "find (\<lambda>h. h_name h = hc_name hospital2) (hospitals db1) \<noteq> None"
      by (simp add: find_append_last)
    then show "create_hospital now2 hospital2 db1
        = (db1, Inl (HTTPException 400 ''Hospital with this name already exists''))"
      by (rule taken_h)
  qed
  have F: "create_user hash user db = (db1, Inr (c, ur))
       \<and> (uc_username user2 = uc_username user \<or> uc_email user2 = uc_email user) \<longrightarrow>
      fst (create_user hash2 user2 db1) = db1
      \<and> (\<exists>detail. snd (create_user hash2 user2 db1) = Inl (HTTPException 400 detail))"
  proof (intro impI, elim conjE)
    assume a: "create_user hash user db = (db1, Inr (c, ur))"
      and same: "uc_username user2 = uc_username user \<or> uc_email user2 = uc_email user"
    from create_user_stores(2) [OF a] obtain row
      where row: "users db1 = users db @ [row]" "u_username row = uc_username user"
        "u_email row = uc_email user"
      by blast
    from same row have "find (\<lambda>u. u_username u = uc_username user2) (users db1) \<noteq> None
       \<or> find (\<lambda>u. u_email u = uc_email user2) (users db1) \<noteq> None"
      using find_append_last [of "\<lambda>u. u_username u = uc_username user2" row "users db"]
            find_append_last [of "\<lambda>u. u_email u = uc_email user2" row "users db"]
      by auto
    then show "fst (create_user hash2 user2 db1) = db1
      \<and> (\<exists>detail. snd (create_user hash2 user2 db1) = Inl (HTTPException 400 detail))"
      by (rule taken_u)
  qed
  from A B C D E F show ?thesis by blast
qed

theorem duplicate_unique_value_conflict_witness:
  "create_hospital 7 hospital_A example_db
     = (example_db, Inl (HTTPException 400 ''Hospital with this name already exists''))
   \<and> snd (create_hospital 8 hospital_B example_db)
       = Inr (201, \<lparr>hr_name = ''B'', hr_address = ''South Road'', hr_id = 2,
                    hr_created_at = 8\<rparr>)
   \<and> create_hospital 9 hospital_B (fst (create_hospital 8 hospital_B example_db))
       = (fst (create_hospital 8 hospital_B example_db),
          Inl (HTTPException 400 ''Hospital with this name already exists''))
   \<and> snd (create_user example_hash user_bob example_db)
       = Inr (201, \<lparr>ur_username = ''bob'', ur_full_name = ''Bob Byrne'',
                    ur_email = ''bob@a.org'', ur_role_id = Some 1, ur_id = 2,
                    ur_role_name = Some ''physician''\<rparr>)
   \<and> fst (create_user example_hash (user_bob\<lparr>uc_email := ''robert@a.org''\<rparr>)
             (fst (create_user example_hash user_bob example_db)))
       = fst (create_user example_hash user_bob example_db)
   \<and> fst (create_user example_hash alice_dangling example_db) = example_db"
proof -
  let ?hr = "\<lparr>hr_name = ''B'', hr_address = ''South Road'', hr_id = 2, hr_created_at = 8\<rparr>"
  let ?ur = "\<lparr>ur_username = ''bob'', ur_full_name = ''Bob Byrne'', ur_email = ''bob@a.org'',
              ur_role_id = Some 1, ur_id = 2, ur_role_name = Some ''physician''\<rparr>"
  have a: "find (\<lambda>h. h_name h = hc_name hospital_A) (hospitals example_db) \<noteq> None"
    by (simp add: hospital_A_def example_db_def)
  have b: "find (\<lambda>u. u_username u = uc_username alice_dangling) (users example_db) \<noteq> None
       \<or> find (\<lambda>u. u_email u = uc_email alice_dangling) (users example_db) \<noteq> None"
    by (simp add: alice_dangling_def example_db_def)
  have h: "create_hospital 8 hospital_B example_db
             = (fst (create_hospital 8 hospital_B example_db), Inr (201, ?hr))"
    by (simp add: create_hospital_def hospital_response_def hospital_name_free_def next_id_def
                  hospital_B_def example_db_def)
  have u: "create_user example_hash user_bob example_db
             = (fst (create_user example_hash user_bob example_db), Inr (201, ?ur))"
    by (simp add: create_user_def user_response_def role_of_def username_free_def
                  email_free_def next_id_def user_bob_def example_db_def)
  have s: "hc_name hospital_B = hc_name hospital_B"
    "uc_username (user_bob\<lparr>uc_email := ''robert@a.org''\<rparr>) = uc_username user_bob
     \<or> uc_email (user_bob\<lparr>uc_email := ''robert@a.org''\<rparr>) = uc_email user_bob"
    by simp_all
  note t1 = duplicate_unique_value_conflict [of hospital_A example_db 7 alice_dangling
              example_hash]
  note t2 = duplicate_unique_value_conflict [of hospital_B example_db 8 user_bob example_hash
              "fst (create_hospital 8 hospital_B example_db)" 201 ?hr hospital_B 9]
  note t3 = duplicate_unique_value_conflict [of hospital_B example_db 8 user_bob example_hash
              "fst (create_user example_hash user_bob example_db)" 201 _ _ _ ?ur
              "user_bob\<lparr>uc_email := ''robert@a.org''\<rparr>" example_hash]
  from t1 a b have 1: "create_hospital 7 hospital_A example_db
     = (example_db, Inl (HTTPException 400 ''Hospital with this name already exists''))"
    "fst (create_user example_hash alice_dangling example_db) = example_db"
    by blast+
  from t2 h s(1) have 2:
    "create_hospital 9 hospital_B (fst (create_hospital 8 hospital_B example_db))
       = (fst (create_hospital 8 hospital_B example_db),
          Inl (HTTPException 400 ''Hospital with this name already exists''))"
    by blast
  from t3 u s(2) have 3:
    "fst (create_user example_hash (user_bob\<lparr>uc_email := ''robert@a.org''\<rparr>)
             (fst (create_user example_hash user_bob example_db)))
       = fst (create_user example_hash user_bob example_db)"
    by blast
  from h have 4: "snd (create_hospital 8 hospital_B example_db) = Inr (201, ?hr)"
    by (metis snd_conv)
  from u have 5: "snd (create_user example_hash user_bob example_db) = Inr (201, ?ur)"
    by (metis snd_conv)
  from 1 2 3 4 5 show ?thesis by blast
qed

theorem duplicate_unique_value_conflict_counterexample:
  "create_hospital 7 hospital_A example_db
     = (example_db, Inl (HTTPException 400 ''Hospital with this name already exists''))
   \<and> create_hospital 8 hospital_A (fst (create_hospital 7 hospital_A example_db))
     = (example_db, Inl (HTTPException 400 ''Hospital with this name already exists''))"
  by (simp add: create_hospital_def hospital_A_def example_db_def)

subsection \<open>List\<close>











end
